theory Spec2Isabelle
  imports Complex_Main "HOL-Library.AList"
begin

section \<open>Data model of \<open>rdl_deployment_pipeline.py\<close>\<close>

text \<open>
  The two enums of the module; \<open>environment_value\<close> is the \<open>.value\<close> string of a
  member of \<open>PipelineEnvironment\<close>.
\<close>

datatype PipelineStage = SETUP | VALIDATE | BUILD | TEST | DEPLOY | MONITOR

datatype PipelineEnvironment = DEVELOPMENT | STAGING | PRODUCTION

fun environment_value :: "PipelineEnvironment \<Rightarrow> string" where
  "environment_value DEVELOPMENT = ''development''"
| "environment_value STAGING = ''staging''"
| "environment_value PRODUCTION = ''production''"

text \<open>
  A Python \<open>dict\<close> keeps its keys in insertion order, and \<open>d[k] = v\<close> overwrites the
  value of a key that is present and appends a new key otherwise: an association list
  under \<open>AList.update\<close>. \<open>{**a, **b}\<close> builds a new dict from the items of \<open>a\<close> and
  then the items of \<open>b\<close>; neither operand is written.
\<close>

type_synonym ('k, 'v) dict = "('k \<times> 'v) list"

definition dict_merge :: "('k, 'v) dict \<Rightarrow> ('k, 'v) dict \<Rightarrow> ('k, 'v) dict" where
  "dict_merge a b = foldl (\<lambda>d kv. AList.update (fst kv) (snd kv) d) a b"

record PipelineConfig =
  environment :: PipelineEnvironment
  auto_deploy :: bool
  run_tests :: bool
  notify_on_failure :: bool
  slack_webhook :: "string option"
  github_token :: "string option"
  parallel_jobs :: int
  timeout_minutes :: int
  artifacts_retention_days :: int

record PipelineJob =
  name :: string
  stage :: PipelineStage
  commands :: "string list"
  job_environment :: "(string, string) dict"
  depends_on :: "string list option"
  job_timeout_minutes :: int
  retry_count :: int

text \<open>
  The dataclass defaults of \<open>PipelineJob\<close>: \<open>depends_on = None\<close>,
  \<open>timeout_minutes = 15\<close>, \<open>retry_count = 2\<close>.
\<close>

definition mk_job :: "string \<Rightarrow> PipelineStage \<Rightarrow> string list \<Rightarrow> (string, string) dict \<Rightarrow> PipelineJob" where
  "mk_job n st cs env =
     \<lparr>name = n, stage = st, commands = cs, job_environment = env,
      depends_on = None, job_timeout_minutes = 15, retry_count = 2\<rparr>"

section \<open>The world outside the program\<close>

text \<open>
  What one call of \<open>subprocess.run(..., timeout=t)\<close> can do: return a completed process
  with a return code, raise \<open>subprocess.TimeoutExpired\<close>, raise some other \<open>Exception\<close>
  (an \<open>OSError\<close>, say), or be cut short by \<open>KeyboardInterrupt\<close>, which is a
  \<open>BaseException\<close> and no \<open>Exception\<close>.
\<close>

datatype exn = TimeoutExpired | OtherException | KeyboardInterrupt

datatype outcome = Exit int | Raise exn

text \<open>
  Within one call of \<open>execute_job\<close> a subprocess is identified by the attempt (the value
  of the loop variable of \<open>range(retry_count + 1)\<close>) and the position of its command in
  \<open>job.commands\<close>: no such pair is run twice. So a function from these two numbers to
  outcomes describes any behaviour of the subprocesses of one job; the pipeline adds the
  position of the job in the planned list.
\<close>

type_synonym job_world = "nat \<Rightarrow> nat \<Rightarrow> outcome"
type_synonym world = "nat \<Rightarrow> job_world"

text \<open>
  The effects of the orchestrator on the outside, in the order they happen: a subprocess
  started with its command line, its \<open>env\<close> argument and its timeout in seconds, and a
  \<open>time.sleep\<close>. The log is kept apart: every call to the logger at its level.
  Reading the clock (\<open>time.time()\<close>, \<open>datetime.now()\<close>) only feeds the durations in
  log lines and is left out, as is the text captured from the subprocess.
\<close>

datatype effect = Spawn string "(string, string) dict" int | Sleep nat

datatype level = DEBUG | INFO | WARNING | ERROR

datatype message =
    Executing_job string
  | Running string
  | Command_failed string
  | Error_output
  | Output
  | Job_completed string
  | Job_retrying string int int
  | Job_timed_out string int
  | Job_failed_with_error string
  | Job_header nat nat string
  | Pipeline_failed_at_job string
  | Pipeline_banner
  | Pipeline_completed nat nat
  | Pipeline_failed int nat

record state =
  os_environ :: "(string, string) dict"
  job_results :: "(string, bool) dict"
  effects :: "effect list"
  logged :: "(level \<times> message) list"

definition log :: "level \<Rightarrow> message \<Rightarrow> state \<Rightarrow> state" where
  "log l m s = s\<lparr>logged := logged s @ [(l, m)]\<rparr>"

definition emit :: "effect \<Rightarrow> state \<Rightarrow> state" where
  "emit e s = s\<lparr>effects := effects s @ [e]\<rparr>"

definition set_result :: "string \<Rightarrow> bool \<Rightarrow> state \<Rightarrow> state" where
  "set_result n b s = s\<lparr>job_results := AList.update n b (job_results s)\<rparr>"

section \<open>\<open>NITSPipelineOrchestrator.execute_job\<close>\<close>

text \<open>
  The subprocess of one command: \<open>env={**os.environ, **job.environment}\<close>,
  \<open>timeout=job.timeout_minutes * 60\<close>.
\<close>

definition spawn_effect :: "PipelineJob \<Rightarrow> (string, string) dict \<Rightarrow> string \<Rightarrow> effect" where
  "spawn_effect job env command =
     Spawn command (dict_merge env (job_environment job)) (job_timeout_minutes job * 60)"

definition spawn :: "PipelineJob \<Rightarrow> string \<Rightarrow> state \<Rightarrow> state" where
  "spawn job command s = emit (spawn_effect job (os_environ s) command) s"

text \<open>
  The inner loop \<open>for command in job.commands\<close> of one attempt, from the command at
  position \<open>i\<close> on. \<open>Inr success\<close> is the value of the flag \<open>success\<close> when the loop is
  left (\<open>break\<close> after a non-zero return code); \<open>Inl e\<close> is an exception leaving it.
\<close>

fun run_commands :: "(nat \<Rightarrow> outcome) \<Rightarrow> PipelineJob \<Rightarrow> nat \<Rightarrow> string list \<Rightarrow> state \<Rightarrow> (exn + bool) \<times> state" where
  "run_commands w job i [] s = (Inr True, s)"
| "run_commands w job i (command # rest) s =
     (let s1 = spawn job command (log DEBUG (Running command) s) in
      case w i of
        Raise e \<Rightarrow> (Inl e, s1)
      | Exit returncode \<Rightarrow>
          if returncode \<noteq> 0
          then (Inr False, log ERROR Error_output (log ERROR (Command_failed command) s1))
          else run_commands w job (Suc i) rest (log DEBUG Output s1))"

text \<open>
  The outer loop \<open>for attempt in range(job.retry_count + 1)\<close> over the attempts still to
  come. \<open>Inr (Some True)\<close> is the \<open>return True\<close> inside the loop, \<open>Inr None\<close> the loop
  running out, \<open>Inl e\<close> an exception leaving it.
\<close>

fun attempts :: "job_world \<Rightarrow> PipelineJob \<Rightarrow> nat list \<Rightarrow> state \<Rightarrow> (exn + bool option) \<times> state" where
  "attempts w job [] s = (Inr None, s)"
| "attempts w job (attempt # later) s =
     (case run_commands (w attempt) job 0 (commands job) s of
        (Inl e, s1) \<Rightarrow> (Inl e, s1)
      | (Inr success, s1) \<Rightarrow>
          if success
          then (Inr (Some True),
                set_result (name job) True (log INFO (Job_completed (name job)) s1))
          else if int attempt < retry_count job
          then attempts w job later
                 (emit (Sleep 2)
                    (log WARNING (Job_retrying (name job) (int attempt + 1) (retry_count job)) s1))
          else attempts w job later s1)"

text \<open>\<open>range(n)\<close> for an integer \<open>n\<close>: empty when \<open>n \<le> 0\<close>.\<close>

definition py_range :: "int \<Rightarrow> nat list" where
  "py_range n = [0 ..< nat n]"

text \<open>
  \<open>execute_job\<close>: the \<open>try\<close> around the attempts loop with its two handlers, then the
  two statements after it. \<open>KeyboardInterrupt\<close> matches neither handler and leaves the
  method.
\<close>

definition execute_job :: "job_world \<Rightarrow> PipelineJob \<Rightarrow> state \<Rightarrow> (exn + bool) \<times> state" where
  "execute_job w job s =
     (case attempts w job (py_range (retry_count job + 1)) (log INFO (Executing_job (name job)) s) of
        (Inr (Some b), s1) \<Rightarrow> (Inr b, s1)
      | (Inr None, s1) \<Rightarrow> (Inr False, set_result (name job) False s1)
      | (Inl TimeoutExpired, s1) \<Rightarrow>
          (Inr False,
           set_result (name job) False
             (log ERROR (Job_timed_out (name job) (job_timeout_minutes job)) s1))
      | (Inl OtherException, s1) \<Rightarrow>
          (Inr False,
           set_result (name job) False (log ERROR (Job_failed_with_error (name job)) s1))
      | (Inl KeyboardInterrupt, s1) \<Rightarrow> (Inl KeyboardInterrupt, s1))"

section \<open>\<open>NITSPipelineOrchestrator.run_pipeline\<close>\<close>

text \<open>
  \<open>str.title()\<close> on ASCII text: the first letter of every run of letters in upper case,
  the other letters of the run in lower case.
\<close>

definition is_lower :: "char \<Rightarrow> bool" where
  "is_lower c = (97 \<le> (of_char c :: nat) \<and> (of_char c :: nat) \<le> 122)"

definition is_upper :: "char \<Rightarrow> bool" where
  "is_upper c = (65 \<le> (of_char c :: nat) \<and> (of_char c :: nat) \<le> 90)"

definition to_upper :: "char \<Rightarrow> char" where
  "to_upper c = (if is_lower c then char_of ((of_char c :: nat) - 32) else c)"

definition to_lower :: "char \<Rightarrow> char" where
  "to_lower c = (if is_upper c then char_of ((of_char c :: nat) + 32) else c)"

fun title_from :: "bool \<Rightarrow> string \<Rightarrow> string" where
  "title_from prev [] = []"
| "title_from prev (c # cs) =
     (if is_lower c \<or> is_upper c
      then (if prev then to_lower c else to_upper c) # title_from True cs
      else c # title_from False cs)"

definition title :: "string \<Rightarrow> string" where
  "title s = title_from False s"

text \<open>The three jobs \<open>run_pipeline\<close> builds, each under its own condition.\<close>

definition validate_job :: PipelineJob where
  "validate_job =
     mk_job ''Environment Validation'' VALIDATE [''python nits_rdl_deployment.py --help''] []"

definition build_job :: PipelineJob where
  "build_job =
     mk_job ''Build Application'' BUILD
       [''rm -rf node_modules/.vite-temp'', ''npm ci --include=dev'', ''npm run build'']
       [(''NODE_ENV'', ''production'')]"

definition deploy_job :: "PipelineConfig \<Rightarrow> PipelineJob" where
  "deploy_job config =
     (let env_name = environment_value (environment config) in
      (mk_job (''Deploy to '' @ title env_name) DEPLOY
         [''python rdl_deployment_pipeline.py --environment '' @ env_name @ '' --deploy-artifacts'']
         [(''NODE_ENV'', ''production'')])
      \<lparr>job_timeout_minutes := 5\<rparr>)"

definition planned_jobs :: "PipelineConfig \<Rightarrow> PipelineStage list \<Rightarrow> PipelineJob list" where
  "planned_jobs config stages =
     (if VALIDATE \<in> set stages then [validate_job] else []) @
     (if BUILD \<in> set stages then [build_job] else []) @
     (if DEPLOY \<in> set stages \<and> auto_deploy config then [deploy_job config] else [])"

text \<open>
  The loop \<open>for i, job in enumerate(jobs, 1)\<close> over the jobs still to run, with the
  counter \<open>successful_jobs\<close>; it yields the counter when it is left, by running out or
  by \<open>break\<close>. The subprocesses of the job numbered \<open>i\<close> behave as \<open>w i\<close> says.
\<close>

fun run_jobs :: "world \<Rightarrow> nat \<Rightarrow> nat \<Rightarrow> PipelineJob list \<Rightarrow> nat \<Rightarrow> state \<Rightarrow> (exn + nat) \<times> state" where
  "run_jobs w total_jobs i [] successful_jobs s = (Inr successful_jobs, s)"
| "run_jobs w total_jobs i (job # rest) successful_jobs s =
     (case execute_job (w i) job (log INFO (Job_header i total_jobs (name job)) s) of
        (Inl e, s1) \<Rightarrow> (Inl e, s1)
      | (Inr ok, s1) \<Rightarrow>
          if ok then run_jobs w total_jobs (Suc i) rest (Suc successful_jobs) s1
          else (Inr successful_jobs, log ERROR (Pipeline_failed_at_job (name job)) s1))"

text \<open>The default of the parameter: \<open>if stages is None: stages = [VALIDATE, BUILD, DEPLOY]\<close>.\<close>

definition requested_stages :: "PipelineStage list option \<Rightarrow> PipelineStage list" where
  "requested_stages stages_arg =
     (case stages_arg of None \<Rightarrow> [VALIDATE, BUILD, DEPLOY] | Some stages \<Rightarrow> stages)"

definition run_pipeline :: "world \<Rightarrow> PipelineConfig \<Rightarrow> PipelineStage list option \<Rightarrow> state \<Rightarrow> (exn + bool) \<times> state" where
  "run_pipeline w config stages_arg s =
     (let jobs = planned_jobs config (requested_stages stages_arg);
          total_jobs = length jobs
      in case run_jobs w total_jobs 1 jobs 0 (log INFO Pipeline_banner s) of
           (Inl e, s1) \<Rightarrow> (Inl e, s1)
         | (Inr successful_jobs, s1) \<Rightarrow>
             if successful_jobs = total_jobs
             then (Inr True, log INFO (Pipeline_completed successful_jobs total_jobs) s1)
             else (Inr False,
                   log ERROR (Pipeline_failed (int total_jobs - int successful_jobs) total_jobs) s1))"

section \<open>\<open>NITSPipelineOrchestrator.generate_pipeline_status_report\<close>\<close>

text \<open>
  \<open>a / b\<close> on two Python integers raises \<open>ZeroDivisionError\<close> when \<open>b\<close> is zero.
  Otherwise it is the double nearest to the quotient of the two integers, a tie going to
  the even significand, and \<open>OverflowError\<close> when that is beyond the range of the
  doubles. A double is represented by the rational number it denotes.

  A double has a significand of 53 bits: between \<open>2 ^ e\<close> and \<open>2 ^ (e + 1)\<close> the doubles
  are the multiples of \<open>2 ^ (e - 52)\<close>, for \<open>e\<close> from \<open>-1022\<close> to \<open>1023\<close>, and below
  \<open>2 ^ -1022\<close> they are the multiples of \<open>2 ^ -1074\<close>. \<open>bit_length\<close> is
  \<open>int.bit_length\<close>, and \<open>exponent a b\<close> is the \<open>e\<close> with
  \<open>2 ^ e \<le> a / b < 2 ^ (e + 1)\<close> for positive \<open>a\<close> and \<open>b\<close>.
\<close>

datatype arith_error = ZeroDivisionError | OverflowError

fun bit_length :: "nat \<Rightarrow> nat" where
  "bit_length n = (if n = 0 then 0 else Suc (bit_length (n div 2)))"

declare bit_length.simps [simp del]

definition round_half_even :: "rat \<Rightarrow> int" where
  "round_half_even x =
     (let f = \<lfloor>x\<rfloor>; r = x - of_int f in
      if r < 1 / 2 then f else if 1 / 2 < r then f + 1 else if even f then f else f + 1)"

definition exponent :: "nat \<Rightarrow> nat \<Rightarrow> int" where
  "exponent a b =
     (let d = int (bit_length a) - int (bit_length b) in
      if power_int 2 d * of_nat b \<le> (of_nat a :: rat) then d else d - 1)"

definition nearest_double :: "int \<Rightarrow> int \<Rightarrow> rat" where
  "nearest_double a b =
     (if a = 0 then 0
      else let k = max (exponent (nat \<bar>a\<bar>) (nat \<bar>b\<bar>)) (- 1022) - 52 in
           of_int (round_half_even (of_int a / of_int b / power_int 2 k)) * power_int 2 k)"

definition truediv :: "int \<Rightarrow> int \<Rightarrow> arith_error + rat" where
  "truediv a b =
     (if b = 0 then Inl ZeroDivisionError
      else let r = nearest_double a b in
           if 2 ^ 1024 \<le> \<bar>r\<bar> then Inl OverflowError else Inr r)"

record report =
  pipeline_version :: string
  system_version :: string
  report_environment :: string
  report_job_results :: "(string, bool) dict"
  success_rate :: rat
  total_jobs :: nat

text \<open>
  The fields \<open>start_time\<close> and \<open>duration_seconds\<close> are readings of the clock and are
  left out. \<open>successes\<close> is \<open>len([r for r in self.job_results.values() if r])\<close>.
\<close>

definition dict_values :: "('k, 'v) dict \<Rightarrow> 'v list" where
  "dict_values d = map snd d"

definition successes :: "state \<Rightarrow> nat" where
  "successes s = length (filter (\<lambda>r. r) (dict_values (job_results s)))"

definition generate_pipeline_status_report :: "PipelineConfig \<Rightarrow> state \<Rightarrow> arith_error + report" where
  "generate_pipeline_status_report config s =
     (case truediv (int (successes s)) (max (int (length (job_results s))) 1) of
        Inl e \<Rightarrow> Inl e
      | Inr rate \<Rightarrow>
          Inr \<lparr>pipeline_version = ''1.0.0'', system_version = ''2.0 (AI-Enhanced)'',
               report_environment = environment_value (environment config),
               report_job_results = job_results s,
               success_rate = rate,
               total_jobs = length (job_results s)\<rparr>)"

section \<open>\<open>main\<close> of \<open>rdl_deployment_pipeline.py\<close>\<close>

text \<open>
  The parsed command line, and the outcomes of the methods that work on the file system
  and the server and are not modelled: what each returns or raises when \<open>main\<close> calls
  it. \<open>write_report\<close> is the \<open>open\<close> and \<open>json.dump\<close> of the status report.
\<close>

record pipeline_args =
  arg_environment :: PipelineEnvironment
  arg_auto_deploy :: bool
  arg_validate_only :: bool
  arg_create_workflow :: bool
  arg_deploy_artifacts :: bool
  arg_github_token :: "string option"
  arg_parallel_jobs :: int
  arg_timeout :: int

record externals =
  create_workflow_file :: "exn + bool"
  validate_pipeline :: "exn + bool"
  deploy_artifacts :: "exn + bool"
  write_report :: "exn + unit"

text \<open>
  \<open>sys.exit(0 if success else 1)\<close> raises \<open>SystemExit\<close>, which neither handler of
  \<open>main\<close> catches; \<open>except KeyboardInterrupt\<close> exits with 0 and \<open>except Exception\<close>
  with 1.
\<close>

definition exit_code :: "bool \<Rightarrow> int" where
  "exit_code success = (if success then 0 else 1)"

fun main_handlers :: "exn \<Rightarrow> int" where
  "main_handlers KeyboardInterrupt = 0"
| "main_handlers TimeoutExpired = 1"
| "main_handlers OtherException = 1"

definition finish :: "exn + bool \<Rightarrow> int" where
  "finish r = (case r of Inl e \<Rightarrow> main_handlers e | Inr success \<Rightarrow> exit_code success)"

text \<open>\<open>a or b\<close> on an optional string: \<open>None\<close> and the empty string are falsy.\<close>

definition py_or :: "string option \<Rightarrow> string option \<Rightarrow> string option" where
  "py_or a b = (case a of None \<Rightarrow> b | Some x \<Rightarrow> if x = [] then b else a)"

definition make_config :: "pipeline_args \<Rightarrow> state \<Rightarrow> PipelineConfig" where
  "make_config args s =
     \<lparr>environment = arg_environment args, auto_deploy = arg_auto_deploy args,
      run_tests = True, notify_on_failure = True, slack_webhook = None,
      github_token = py_or (arg_github_token args) (map_of (os_environ s) ''GITHUB_TOKEN''),
      parallel_jobs = arg_parallel_jobs args, timeout_minutes = arg_timeout args,
      artifacts_retention_days = 30\<rparr>"

text \<open>\<open>NITSPipelineOrchestrator.__init__\<close> starts with \<open>self.job_results = {}\<close>.\<close>

definition init_orchestrator :: "state \<Rightarrow> state" where
  "init_orchestrator s = s\<lparr>job_results := []\<rparr>"

definition main_stages :: "pipeline_args \<Rightarrow> PipelineStage list" where
  "main_stages args = [VALIDATE, BUILD] @ (if arg_auto_deploy args then [DEPLOY] else [])"

definition pipeline_main :: "world \<Rightarrow> externals \<Rightarrow> pipeline_args \<Rightarrow> state \<Rightarrow> int \<times> state" where
  "pipeline_main w ext args s =
     (let config = make_config args s; s0 = init_orchestrator s in
      if arg_create_workflow args then (finish (create_workflow_file ext), s0)
      else if arg_validate_only args then (finish (validate_pipeline ext), s0)
      else if arg_deploy_artifacts args then (finish (deploy_artifacts ext), s0)
      else
        case run_pipeline w config (Some (main_stages args)) s0 of
          (Inl e, s1) \<Rightarrow> (main_handlers e, s1)
        | (Inr success, s1) \<Rightarrow>
            (case generate_pipeline_status_report config s1 of
               Inl e \<Rightarrow> (1, s1)
             | Inr status_report \<Rightarrow>
                 (case write_report ext of
                    Inl e \<Rightarrow> (main_handlers e, s1)
                  | Inr u \<Rightarrow> (exit_code success, s1))))"

section \<open>\<open>nits_rdl_deployment.py\<close>: \<open>NITSRapidDeployment.deploy\<close> and \<open>main\<close>\<close>

text \<open>
  The four deployment steps are methods that run the package manager and the server;
  what a call returns or raises is given from outside, by the step's position in the
  list and the number of calls of that step before. The trace records the calls of the
  step functions and the \<open>time.sleep\<close> between them.
\<close>

datatype deploy_event = Called string | Slept nat

type_synonym step_world = "nat \<Rightarrow> nat \<Rightarrow> exn + bool"

text \<open>
  The loop \<open>while retry_count < self.config.max_retries\<close> of one step; \<open>retries\<close> is
  its local variable \<open>retry_count\<close>. \<open>Inr True\<close> is the loop left by \<open>break\<close> or by its
  condition, \<open>Inr False\<close> the \<open>return False\<close> inside.
\<close>

function retry_step :: "(nat \<Rightarrow> exn + bool) \<Rightarrow> string \<Rightarrow> int \<Rightarrow> int \<Rightarrow> deploy_event list \<Rightarrow> (exn + bool) \<times> deploy_event list" where
  "retry_step step_func step_name max_retries retries tr =
     (if retries < max_retries
      then (case step_func (nat retries) of
              Inl e \<Rightarrow> (Inl e, tr @ [Called step_name])
            | Inr ok \<Rightarrow>
                if ok then (Inr True, tr @ [Called step_name])
                else if retries + 1 < max_retries
                then retry_step step_func step_name max_retries (retries + 1)
                       (tr @ [Called step_name, Slept 2])
                else (Inr False, tr @ [Called step_name]))
      else (Inr True, tr))"
  by pat_completeness auto
termination
  by (relation "measure (\<lambda>(f, n, m, r, tr). nat (m - r))") auto

fun deploy_steps :: "step_world \<Rightarrow> int \<Rightarrow> nat \<Rightarrow> string list \<Rightarrow> deploy_event list \<Rightarrow> (exn + bool) \<times> deploy_event list" where
  "deploy_steps w max_retries i [] tr = (Inr True, tr)"
| "deploy_steps w max_retries i (step_name # rest) tr =
     (case retry_step (w i) step_name max_retries 0 tr of
        (Inl e, tr1) \<Rightarrow> (Inl e, tr1)
      | (Inr ok, tr1) \<Rightarrow>
          if ok then deploy_steps w max_retries (Suc i) rest tr1 else (Inr False, tr1))"

definition step_names :: "string list" where
  "step_names =
     [''Environment Validation'', ''Dependency Installation'', ''Application Build'',
      ''Server Start'']"

definition deploy :: "step_world \<Rightarrow> int \<Rightarrow> (exn + bool) \<times> deploy_event list" where
  "deploy w max_retries = deploy_steps w max_retries 0 step_names []"

text \<open>
  \<open>--build-only\<close> is \<open>validate_environment() and install_dependencies() and
  build_application()\<close>: each called once, the later ones only after a true result.
\<close>

fun all_of :: "step_world \<Rightarrow> nat \<Rightarrow> string list \<Rightarrow> deploy_event list \<Rightarrow> (exn + bool) \<times> deploy_event list" where
  "all_of w i [] tr = (Inr True, tr)"
| "all_of w i (step_name # rest) tr =
     (case w i 0 of
        Inl e \<Rightarrow> (Inl e, tr @ [Called step_name])
      | Inr ok \<Rightarrow>
          if ok then all_of w (Suc i) rest (tr @ [Called step_name])
          else (Inr False, tr @ [Called step_name]))"

text \<open>
  \<open>DeploymentConfig.max_retries\<close> keeps its default 3: \<open>main\<close> has no option for it.
  The handler of \<open>KeyboardInterrupt\<close> calls \<open>stop_server\<close> before \<open>sys.exit(0)\<close>.
\<close>

definition deployment_main :: "step_world \<Rightarrow> bool \<Rightarrow> int \<times> deploy_event list" where
  "deployment_main w build_only =
     (case (if build_only then all_of w 0 (take 3 step_names) [] else deploy w 3) of
        (Inl KeyboardInterrupt, tr) \<Rightarrow> (0, tr @ [Called ''stop_server''])
      | (Inl e, tr) \<Rightarrow> (1, tr)
      | (Inr success, tr) \<Rightarrow> (exit_code success, tr))"

section \<open>The operation a command line asks for\<close>

text \<open>
  What the operation selected by the command line returns or raises, for the statement
  of the exit codes. For the full pipeline it is the verdict of \<open>run_pipeline\<close>, unless
  writing the status report afterwards raises.
\<close>

definition requested_operation :: "world \<Rightarrow> externals \<Rightarrow> pipeline_args \<Rightarrow> state \<Rightarrow> exn + bool" where
  "requested_operation w ext args s =
     (if arg_create_workflow args then create_workflow_file ext
      else if arg_validate_only args then validate_pipeline ext
      else if arg_deploy_artifacts args then deploy_artifacts ext
      else
        case fst (run_pipeline w (make_config args s) (Some (main_stages args))
                    (init_orchestrator s)) of
          Inl e \<Rightarrow> Inl e
        | Inr success \<Rightarrow>
            (case write_report ext of Inl e \<Rightarrow> Inl e | Inr u \<Rightarrow> Inr success))"

definition requested_deployment :: "step_world \<Rightarrow> bool \<Rightarrow> exn + bool" where
  "requested_deployment w build_only =
     fst (if build_only then all_of w 0 (take 3 step_names) [] else deploy w 3)"

section \<open>Observations of a run\<close>

text \<open>
  \<open>passed wa i cs\<close> is the number of commands at the head of \<open>cs\<close> (the first of them
  at position \<open>i\<close>) whose subprocess returns 0. An attempt succeeds when all commands
  do; it fails by a command when the first command that does not return 0 returns
  another code, rather than raising.
\<close>

fun passed :: "(nat \<Rightarrow> outcome) \<Rightarrow> nat \<Rightarrow> string list \<Rightarrow> nat" where
  "passed wa i [] = 0"
| "passed wa i (c # cs) = (if wa i = Exit 0 then Suc (passed wa (Suc i) cs) else 0)"

definition attempt_succeeds :: "(nat \<Rightarrow> outcome) \<Rightarrow> string list \<Rightarrow> bool" where
  "attempt_succeeds wa cs = (passed wa 0 cs = length cs)"

definition attempt_fails :: "(nat \<Rightarrow> outcome) \<Rightarrow> string list \<Rightarrow> bool" where
  "attempt_fails wa cs =
     (passed wa 0 cs < length cs \<and>
      (case wa (passed wa 0 cs) of Exit rc \<Rightarrow> True | Raise e \<Rightarrow> False))"

definition attempt_times_out :: "(nat \<Rightarrow> outcome) \<Rightarrow> string list \<Rightarrow> bool" where
  "attempt_times_out wa cs =
     (passed wa 0 cs < length cs \<and> wa (passed wa 0 cs) = Raise TimeoutExpired)"

text \<open>
  The subprocesses one attempt starts: the commands up to and including the first that
  does not return 0. \<open>backoff\<close> is the sleep after a failed attempt \<open>a\<close>.
\<close>

definition attempt_effects :: "PipelineJob \<Rightarrow> (string, string) dict \<Rightarrow> (nat \<Rightarrow> outcome) \<Rightarrow> effect list" where
  "attempt_effects job env wa =
     map (spawn_effect job env) (take (Suc (passed wa 0 (commands job))) (commands job))"

definition backoff :: "PipelineJob \<Rightarrow> nat \<Rightarrow> effect list" where
  "backoff job a = (if int a < retry_count job then [Sleep 2] else [])"

text \<open>
  What \<open>execute_job\<close> returns and what it does to the outside depend on the job, the
  world and the process environment only: they are read off a run from a blank state.
\<close>

definition blank :: "(string, string) dict \<Rightarrow> state" where
  "blank env = \<lparr>os_environ = env, job_results = [], effects = [], logged = []\<rparr>"

definition verdict :: "job_world \<Rightarrow> PipelineJob \<Rightarrow> exn + bool" where
  "verdict w job = fst (execute_job w job (blank []))"

definition job_effects :: "job_world \<Rightarrow> PipelineJob \<Rightarrow> (string, string) dict \<Rightarrow> effect list" where
  "job_effects w job env = effects (snd (execute_job w job (blank env)))"

definition is_spawn_with :: "(string, string) dict \<Rightarrow> effect \<Rightarrow> bool" where
  "is_spawn_with env e = (case e of Spawn c env' t \<Rightarrow> env' = env | Sleep n \<Rightarrow> True)"

text \<open>Worlds for the examples.\<close>

definition always_exits :: "int \<Rightarrow> job_world" where
  "always_exits rc a i = Exit rc"

definition always_times_out :: job_world where
  "always_times_out a i = Raise TimeoutExpired"

definition succeeds_from :: "nat \<Rightarrow> job_world" where
  "succeeds_from k a i = Exit (if a < k then 1 else 0)"

definition times_out_from :: "nat \<Rightarrow> job_world" where
  "times_out_from k a i = (if a < k then Exit 1 else Raise TimeoutExpired)"

definition fails_second_once :: job_world where
  "fails_second_once a i = Exit (if a = 0 \<and> i = 1 then 1 else 0)"

definition all_succeed :: world where
  "all_succeed i = always_exits 0"

definition fails_at_job :: "nat \<Rightarrow> world" where
  "fails_at_job n i = (if i = n then always_exits 1 else always_exits 0)"

definition example_config :: PipelineConfig where
  "example_config =
     \<lparr>environment = STAGING, auto_deploy = True, run_tests = True, notify_on_failure = True,
      slack_webhook = None, github_token = None, parallel_jobs = 2, timeout_minutes = 30,
      artifacts_retention_days = 30\<rparr>"

definition manual_config :: PipelineConfig where
  "manual_config = example_config\<lparr>auto_deploy := False\<rparr>"

definition two_results :: state where
  "two_results =
     (blank [])\<lparr>job_results :=
        [(''Environment Validation'', True), (''Build Application'', False)]\<rparr>"

definition three_results :: state where
  "three_results =
     (blank [])\<lparr>job_results :=
        [(''Environment Validation'', True), (''Build Application'', True),
         (''Deploy to Staging'', False)]\<rparr>"

definition workflow_args :: pipeline_args where
  "workflow_args =
     \<lparr>arg_environment = DEVELOPMENT, arg_auto_deploy = False, arg_validate_only = False,
      arg_create_workflow = True, arg_deploy_artifacts = False, arg_github_token = None,
      arg_parallel_jobs = 2, arg_timeout = 30\<rparr>"

definition externals_with :: "exn + bool \<Rightarrow> externals" where
  "externals_with r =
     \<lparr>create_workflow_file = r, validate_pipeline = r, deploy_artifacts = r,
      write_report = Inr ()\<rparr>"

definition steps_all :: "exn + bool \<Rightarrow> step_world" where
  "steps_all r i a = r"

definition example_environ :: "(string, string) dict" where
  "example_environ = [(''PATH'', ''/bin''), (''NODE_ENV'', ''development'')]"

definition example_state :: state where
  "example_state = (blank example_environ)\<lparr>job_results := [(''Build Application'', True)]\<rparr>"

section \<open>One attempt and the loop of attempts\<close>

lemma passed_le: "passed w i cs \<le> length cs"
  by (induction cs arbitrary: i) auto

lemma run_commands_frame:
  "os_environ (snd (run_commands w job i cs s)) = os_environ s \<and>
   job_results (snd (run_commands w job i cs s)) = job_results s"
  by (induction cs arbitrary: i s)
     (auto simp: Let_def spawn_def emit_def log_def split: outcome.splits)

lemma run_commands_effects:
  "effects (snd (run_commands w job i cs s)) =
     effects s @ map (spawn_effect job (os_environ s)) (take (Suc (passed w i cs)) cs)"
  by (induction cs arbitrary: i s)
     (auto simp: Let_def spawn_def emit_def log_def split: outcome.splits)

lemma run_commands_result:
  "fst (run_commands w job i cs s) =
     (if passed w i cs = length cs then Inr True
      else case w (i + passed w i cs) of Exit rc \<Rightarrow> Inr False | Raise e \<Rightarrow> Inl e)"
  by (induction cs arbitrary: i s)
     (auto simp: Let_def split: outcome.splits)

lemma passed_all: "passed w i cs = length cs \<longleftrightarrow> (\<forall>q<length cs. w (i + q) = Exit 0)"
proof (induction cs arbitrary: i)
  case Nil
  then show ?case by simp
next
  case (Cons c cs)
  show ?case
  proof (cases "w i = Exit 0")
    case True
    have "(\<forall>q<Suc (length cs). w (i + q) = Exit 0) \<longleftrightarrow> (\<forall>q<length cs. w (Suc i + q) = Exit 0)"
      using True by (auto simp: less_Suc_eq_0_disj)
    with True Cons show ?thesis by simp
  next
    case False
    then show ?thesis by auto
  qed
qed

lemma passed_prefix: "q < passed w i cs \<Longrightarrow> w (i + q) = Exit 0"
proof (induction cs arbitrary: i q)
  case Nil
  then show ?case by simp
next
  case (Cons c cs)
  show ?case
  proof (cases q)
    case 0
    with Cons.prems show ?thesis by (simp split: if_splits)
  next
    case (Suc q')
    with Cons.prems have "q' < passed w (Suc i) cs" by (simp split: if_splits)
    from Cons.IH [OF this] Suc show ?thesis by simp
  qed
qed

lemma passed_stop: "passed w i cs < length cs \<Longrightarrow> w (i + passed w i cs) \<noteq> Exit 0"
proof (induction cs arbitrary: i)
  case Nil
  then show ?case by simp
next
  case (Cons c cs)
  show ?case
  proof (cases "w i = Exit 0")
    case True
    with Cons.prems have "passed w (Suc i) cs < length cs" by simp
    from Cons.IH [OF this] True show ?thesis by simp
  next
    case False
    then show ?thesis by simp
  qed
qed

lemma passed_first:
  "p < length cs \<Longrightarrow> \<forall>q<p. w (i + q) = Exit 0 \<Longrightarrow> w (i + p) \<noteq> Exit 0 \<Longrightarrow> passed w i cs = p"
proof (induction cs arbitrary: i p)
  case Nil
  then show ?case by simp
next
  case (Cons c cs)
  show ?case
  proof (cases p)
    case 0
    with Cons.prems show ?thesis by simp
  next
    case (Suc p')
    with Cons.prems have h0: "w i = Exit 0" by force
    have "passed w (Suc i) cs = p'"
    proof (rule Cons.IH)
      show "p' < length cs" using Cons.prems Suc by simp
      show "\<forall>q<p'. w (Suc i + q) = Exit 0"
        using Cons.prems(2) Suc by (metis Suc_less_eq add_Suc_shift)
      show "w (Suc i + p') \<noteq> Exit 0" using Cons.prems(3) Suc by simp
    qed
    with h0 Suc show ?thesis by simp
  qed
qed

lemma attempt_succeeds_iff:
  "attempt_succeeds wa cs \<longleftrightarrow> (\<forall>q<length cs. wa q = Exit 0)"
  by (simp add: attempt_succeeds_def passed_all)

lemma attempt_fails_iff:
  "attempt_fails wa cs \<longleftrightarrow>
     (\<exists>p<length cs. (\<forall>q<p. wa q = Exit 0) \<and> (\<exists>rc. rc \<noteq> 0 \<and> wa p = Exit rc))"
proof
  assume f: "attempt_fails wa cs"
  let ?p = "passed wa 0 cs"
  from f have lt: "?p < length cs" by (simp add: attempt_fails_def)
  from f obtain rc where rc: "wa ?p = Exit rc"
    by (auto simp: attempt_fails_def split: outcome.splits)
  from passed_stop [OF lt] rc have "rc \<noteq> 0" by auto
  moreover have "\<forall>q<?p. wa q = Exit 0" using passed_prefix [of _ wa 0 cs] by simp
  ultimately show "\<exists>p<length cs. (\<forall>q<p. wa q = Exit 0) \<and> (\<exists>rc. rc \<noteq> 0 \<and> wa p = Exit rc)"
    using lt rc by blast
next
  assume "\<exists>p<length cs. (\<forall>q<p. wa q = Exit 0) \<and> (\<exists>rc. rc \<noteq> 0 \<and> wa p = Exit rc)"
  then obtain p rc where p: "p < length cs" "\<forall>q<p. wa q = Exit 0" "rc \<noteq> 0" "wa p = Exit rc"
    by blast
  then have "passed wa 0 cs = p" using passed_first [of p cs wa 0] by simp
  with p show "attempt_fails wa cs" by (simp add: attempt_fails_def)
qed

lemma attempts_Cons_fail:
  assumes "attempt_fails (w a) (commands job)"
  shows "\<exists>s1. attempts w job (a # later) s = attempts w job later s1 \<and>
           effects s1 = effects s @ attempt_effects job (os_environ s) (w a) @ backoff job a \<and>
           os_environ s1 = os_environ s \<and> job_results s1 = job_results s"
proof -
  obtain r s0 where run: "run_commands (w a) job 0 (commands job) s = (r, s0)"
    by (cases "run_commands (w a) job 0 (commands job) s")
  from assms run_commands_result [of "w a" job 0 "commands job" s] run
  have r: "r = Inr False"
    by (auto simp: attempt_fails_def split: outcome.splits)
  from run_commands_effects [of "w a" job 0 "commands job" s] run
  have e: "effects s0 = effects s @ attempt_effects job (os_environ s) (w a)"
    by (simp add: attempt_effects_def)
  from run_commands_frame [of "w a" job 0 "commands job" s] run
  have f: "os_environ s0 = os_environ s" "job_results s0 = job_results s"
    by simp_all
  show ?thesis
  proof (cases "int a < retry_count job")
    case True
    with run r e f show ?thesis
      by (intro exI [of _ "emit (Sleep 2)
            (log WARNING (Job_retrying (name job) (int a + 1) (retry_count job)) s0)"])
         (simp add: backoff_def emit_def log_def)
  next
    case False
    with run r e f show ?thesis
      by (intro exI [of _ s0]) (simp add: backoff_def)
  qed
qed

lemma attempts_all_fail:
  assumes "\<forall>a\<in>set as. attempt_fails (w a) (commands job)"
  shows "\<exists>s1. attempts w job as s = (Inr None, s1) \<and>
           effects s1 = effects s @
             concat (map (\<lambda>a. attempt_effects job (os_environ s) (w a) @ backoff job a) as) \<and>
           os_environ s1 = os_environ s \<and> job_results s1 = job_results s"
  using assms
proof (induction as arbitrary: s)
  case Nil
  then show ?case by simp
next
  case (Cons a as)
  from Cons.prems have "attempt_fails (w a) (commands job)" by simp
  with attempts_Cons_fail [of w a job as s]
  obtain s1 where s1: "attempts w job (a # as) s = attempts w job as s1"
    "effects s1 = effects s @ attempt_effects job (os_environ s) (w a) @ backoff job a"
    "os_environ s1 = os_environ s" "job_results s1 = job_results s"
    by blast
  from Cons.prems have "\<forall>a\<in>set as. attempt_fails (w a) (commands job)" by simp
  from Cons.IH [OF this, of s1]
  obtain s2 where s2: "attempts w job as s1 = (Inr None, s2)"
    "effects s2 = effects s1 @
       concat (map (\<lambda>a. attempt_effects job (os_environ s1) (w a) @ backoff job a) as)"
    "os_environ s2 = os_environ s1" "job_results s2 = job_results s1"
    by blast
  from s1 s2 show ?case by simp
qed

lemma attempts_Cons_success:
  assumes "attempt_succeeds (w a) (commands job)"
  shows "\<exists>s1. attempts w job (a # later) s = (Inr (Some True), s1) \<and>
           effects s1 = effects s @ map (spawn_effect job (os_environ s)) (commands job) \<and>
           os_environ s1 = os_environ s \<and>
           job_results s1 = AList.update (name job) True (job_results s)"
proof -
  obtain r s0 where run: "run_commands (w a) job 0 (commands job) s = (r, s0)"
    by (cases "run_commands (w a) job 0 (commands job) s")
  from assms run_commands_result [of "w a" job 0 "commands job" s] run
  have r: "r = Inr True"
    by (simp add: attempt_succeeds_def)
  from assms run_commands_effects [of "w a" job 0 "commands job" s] run
  have e: "effects s0 = effects s @ map (spawn_effect job (os_environ s)) (commands job)"
    by (simp add: attempt_succeeds_def)
  from run_commands_frame [of "w a" job 0 "commands job" s] run
  have f: "os_environ s0 = os_environ s" "job_results s0 = job_results s"
    by simp_all
  from run r e f show ?thesis
    by (simp add: set_result_def log_def)
qed

lemma attempts_fail_then_success:
  assumes "\<forall>a\<in>set pre. attempt_fails (w a) (commands job)"
    and "attempt_succeeds (w k) (commands job)"
  shows "\<exists>s1. attempts w job (pre @ k # post) s = (Inr (Some True), s1) \<and>
           effects s1 = effects s @
             concat (map (\<lambda>a. attempt_effects job (os_environ s) (w a) @ backoff job a) pre) @
             map (spawn_effect job (os_environ s)) (commands job) \<and>
           os_environ s1 = os_environ s \<and>
           job_results s1 = AList.update (name job) True (job_results s)"
  using assms(1)
proof (induction pre arbitrary: s)
  case Nil
  from assms(2) attempts_Cons_success [of w k job post s] show ?case by simp
next
  case (Cons a pre)
  from Cons.prems have "attempt_fails (w a) (commands job)" by simp
  with attempts_Cons_fail [of w a job "pre @ k # post" s]
  obtain s1 where s1: "attempts w job (a # pre @ k # post) s = attempts w job (pre @ k # post) s1"
    "effects s1 = effects s @ attempt_effects job (os_environ s) (w a) @ backoff job a"
    "os_environ s1 = os_environ s" "job_results s1 = job_results s"
    by blast
  from Cons.prems have "\<forall>a\<in>set pre. attempt_fails (w a) (commands job)" by simp
  from Cons.IH [OF this, of s1]
  obtain s2 where s2: "attempts w job (pre @ k # post) s1 = (Inr (Some True), s2)"
    "effects s2 = effects s1 @
       concat (map (\<lambda>a. attempt_effects job (os_environ s1) (w a) @ backoff job a) pre) @
       map (spawn_effect job (os_environ s1)) (commands job)"
    "os_environ s2 = os_environ s1"
    "job_results s2 = AList.update (name job) True (job_results s1)"
    by blast
  from s1 s2 show ?case by simp
qed

section \<open>\<open>execute_job\<close>: what every run does\<close>

lemma attempts_os_environ: "os_environ (snd (attempts w job as s)) = os_environ s"
proof (induction as arbitrary: s)
  case Nil
  then show ?case by simp
next
  case (Cons a as)
  obtain r s0 where run: "run_commands (w a) job 0 (commands job) s = (r, s0)"
    by (cases "run_commands (w a) job 0 (commands job) s")
  with run_commands_frame [of "w a" job 0 "commands job" s]
  have f: "os_environ s0 = os_environ s" by simp
  show ?case
    using run f Cons.IH
    by (cases r) (simp_all add: set_result_def log_def emit_def)
qed

lemma attempts_job_results:
  "job_results (snd (attempts w job as s)) =
     (if fst (attempts w job as s) = Inr (Some True)
      then AList.update (name job) True (job_results s) else job_results s) \<and>
   fst (attempts w job as s) \<noteq> Inr (Some False)"
proof (induction as arbitrary: s)
  case Nil
  then show ?case by simp
next
  case (Cons a as)
  obtain r s0 where run: "run_commands (w a) job 0 (commands job) s = (r, s0)"
    by (cases "run_commands (w a) job 0 (commands job) s")
  with run_commands_frame [of "w a" job 0 "commands job" s]
  have f: "job_results s0 = job_results s" by simp
  show ?case
    using run f Cons.IH
    by (cases r) (simp_all add: set_result_def log_def emit_def)
qed

lemma attempts_effects_grow:
  "\<exists>es. effects (snd (attempts w job as s)) = effects s @ es \<and>
        (\<forall>e\<in>set es. is_spawn_with (dict_merge (os_environ s) (job_environment job)) e)"
proof (induction as arbitrary: s)
  case Nil
  then show ?case by simp
next
  case (Cons a as)
  let ?env = "dict_merge (os_environ s) (job_environment job)"
  obtain r s0 where run: "run_commands (w a) job 0 (commands job) s = (r, s0)"
    by (cases "run_commands (w a) job 0 (commands job) s")
  with run_commands_frame [of "w a" job 0 "commands job" s]
  have f: "os_environ s0 = os_environ s" by simp
  from run run_commands_effects [of "w a" job 0 "commands job" s]
  have e: "effects s0 = effects s @ attempt_effects job (os_environ s) (w a)"
    by (simp add: attempt_effects_def)
  have sp: "\<forall>e\<in>set (attempt_effects job (os_environ s) (w a)). is_spawn_with ?env e"
    by (auto simp: attempt_effects_def spawn_effect_def is_spawn_with_def)
  show ?case
  proof (cases r)
    case (Inl x)
    with run e sp show ?thesis by simp
  next
    case (Inr success)
    show ?thesis
    proof (cases success)
      case True
      with Inr run e sp show ?thesis by (simp add: set_result_def log_def)
    next
      case False
      define s1 where "s1 = (if int a < retry_count job
        then emit (Sleep 2) (log WARNING (Job_retrying (name job) (int a + 1) (retry_count job)) s0)
        else s0)"
      have att: "attempts w job (a # as) s = attempts w job as s1"
        using run Inr False by (simp add: s1_def)
      have e1: "effects s1 = effects s @ attempt_effects job (os_environ s) (w a) @ backoff job a"
        using e by (simp add: s1_def backoff_def emit_def log_def)
      have f1: "os_environ s1 = os_environ s"
        using f by (simp add: s1_def emit_def log_def)
      from Cons.IH [of s1] f1 obtain es where
        es: "effects (snd (attempts w job as s1)) = effects s1 @ es"
          "\<forall>e\<in>set es. is_spawn_with ?env e"
        by auto
      have "\<forall>e\<in>set (backoff job a). is_spawn_with ?env e"
        by (simp add: backoff_def is_spawn_with_def)
      with att e1 es sp show ?thesis
        by (intro exI [of _ "attempt_effects job (os_environ s) (w a) @ backoff job a @ es"]) auto
    qed
  qed
qed

lemma attempts_Cons_effects:
  "\<exists>rest. effects (snd (attempts w job (a # later) s)) =
            effects s @ attempt_effects job (os_environ s) (w a) @ rest"
proof -
  obtain r s0 where run: "run_commands (w a) job 0 (commands job) s = (r, s0)"
    by (cases "run_commands (w a) job 0 (commands job) s")
  from run run_commands_effects [of "w a" job 0 "commands job" s]
  have e: "effects s0 = effects s @ attempt_effects job (os_environ s) (w a)"
    by (simp add: attempt_effects_def)
  show ?thesis
  proof (cases r)
    case (Inl x)
    with run e show ?thesis by simp
  next
    case (Inr success)
    show ?thesis
    proof (cases success)
      case True
      with Inr run e show ?thesis by (simp add: set_result_def log_def)
    next
      case False
      define s1 where "s1 = (if int a < retry_count job
        then emit (Sleep 2) (log WARNING (Job_retrying (name job) (int a + 1) (retry_count job)) s0)
        else s0)"
      have att: "attempts w job (a # later) s = attempts w job later s1"
        using run Inr False by (simp add: s1_def)
      have e1: "effects s1 = effects s @ attempt_effects job (os_environ s) (w a) @ backoff job a"
        using e by (simp add: s1_def backoff_def emit_def log_def)
      from attempts_effects_grow [of w job later s1] obtain es where
        "effects (snd (attempts w job later s1)) = effects s1 @ es" by blast
      with att e1 show ?thesis by simp
    qed
  qed
qed

lemma attempts_Cons_raise:
  assumes "passed (w a) 0 (commands job) < length (commands job)"
    and "w a (passed (w a) 0 (commands job)) = Raise e"
  shows "\<exists>s1. attempts w job (a # later) s = (Inl e, s1) \<and>
           effects s1 = effects s @ attempt_effects job (os_environ s) (w a) \<and>
           os_environ s1 = os_environ s \<and> job_results s1 = job_results s"
proof -
  obtain r s0 where run: "run_commands (w a) job 0 (commands job) s = (r, s0)"
    by (cases "run_commands (w a) job 0 (commands job) s")
  from assms run_commands_result [of "w a" job 0 "commands job" s] run
  have r: "r = Inl e" by simp
  from run_commands_effects [of "w a" job 0 "commands job" s] run
  have e: "effects s0 = effects s @ attempt_effects job (os_environ s) (w a)"
    by (simp add: attempt_effects_def)
  from run_commands_frame [of "w a" job 0 "commands job" s] run
  have f: "os_environ s0 = os_environ s" "job_results s0 = job_results s"
    by simp_all
  from run r e f show ?thesis by simp
qed

lemma attempts_fail_then_raise:
  assumes "\<forall>a\<in>set pre. attempt_fails (w a) (commands job)"
    and "passed (w k) 0 (commands job) < length (commands job)"
    and "w k (passed (w k) 0 (commands job)) = Raise e"
  shows "\<exists>s1. attempts w job (pre @ k # post) s = (Inl e, s1) \<and>
           effects s1 = effects s @
             concat (map (\<lambda>a. attempt_effects job (os_environ s) (w a) @ backoff job a) pre) @
             attempt_effects job (os_environ s) (w k) \<and>
           os_environ s1 = os_environ s \<and> job_results s1 = job_results s"
  using assms(1)
proof (induction pre arbitrary: s)
  case Nil
  from assms(2,3) attempts_Cons_raise [of w k job e post s] show ?case by simp
next
  case (Cons a pre)
  from Cons.prems have "attempt_fails (w a) (commands job)" by simp
  with attempts_Cons_fail [of w a job "pre @ k # post" s]
  obtain s1 where s1: "attempts w job (a # pre @ k # post) s = attempts w job (pre @ k # post) s1"
    "effects s1 = effects s @ attempt_effects job (os_environ s) (w a) @ backoff job a"
    "os_environ s1 = os_environ s" "job_results s1 = job_results s"
    by blast
  from Cons.prems have "\<forall>a\<in>set pre. attempt_fails (w a) (commands job)" by simp
  from Cons.IH [OF this, of s1]
  obtain s2 where s2: "attempts w job (pre @ k # post) s1 = (Inl e, s2)"
    "effects s2 = effects s1 @
       concat (map (\<lambda>a. attempt_effects job (os_environ s1) (w a) @ backoff job a) pre) @
       attempt_effects job (os_environ s1) (w k)"
    "os_environ s2 = os_environ s1" "job_results s2 = job_results s1"
    by blast
  from s1 s2 show ?case by simp
qed

text \<open>The statements after the loop of attempts touch neither the effects nor the environment.\<close>

lemma execute_job_effects:
  "effects (snd (execute_job w job s)) =
     effects (snd (attempts w job (py_range (retry_count job + 1))
                     (log INFO (Executing_job (name job)) s)))"
  by (simp add: execute_job_def set_result_def log_def
           split: prod.splits sum.splits option.splits exn.splits)

lemma execute_job_os_environ: "os_environ (snd (execute_job w job s)) = os_environ s"
proof -
  have "os_environ (snd (execute_job w job s)) =
     os_environ (snd (attempts w job (py_range (retry_count job + 1))
                     (log INFO (Executing_job (name job)) s)))"
    by (simp add: execute_job_def set_result_def log_def
           split: prod.splits sum.splits option.splits exn.splits)
  then show ?thesis by (simp add: attempts_os_environ log_def)
qed

lemma execute_job_result:
  "fst (execute_job w job s) =
     (case fst (attempts w job (py_range (retry_count job + 1))
                  (log INFO (Executing_job (name job)) s)) of
        Inr (Some b) \<Rightarrow> Inr b
      | Inr None \<Rightarrow> Inr False
      | Inl KeyboardInterrupt \<Rightarrow> Inl KeyboardInterrupt
      | Inl e \<Rightarrow> Inr False)"
  by (simp add: execute_job_def split: prod.splits sum.splits option.splits exn.splits)

lemma execute_job_job_results:
  "job_results (snd (execute_job w job s)) =
     (case fst (execute_job w job s) of
        Inr b \<Rightarrow> AList.update (name job) b (job_results s)
      | Inl e \<Rightarrow> job_results s)"
proof -
  let ?s0 = "log INFO (Executing_job (name job)) s"
  let ?as = "py_range (retry_count job + 1)"
  obtain r s1 where att: "attempts w job ?as ?s0 = (r, s1)"
    by (cases "attempts w job ?as ?s0")
  from attempts_job_results [of w job ?as ?s0] att
  have jr: "job_results s1 = (if r = Inr (Some True)
      then AList.update (name job) True (job_results s) else job_results s)"
    and nf: "r \<noteq> Inr (Some False)"
    by (simp_all add: log_def)
  show ?thesis
    using att jr nf
    by (auto simp: execute_job_def set_result_def log_def
             split: sum.splits option.splits exn.splits)
qed

section \<open>The claims about \<open>execute_job\<close>\<close>

lemma upt_split: "k < n \<Longrightarrow> [0..<n] = [0..<k] @ k # [Suc k..<n]"
  by (metis le_add1 le_add_same_cancel1 less_imp_add_positive upt_add_eq_append upt_conv_Cons)

lemma attempts_append_fail:
  assumes "\<forall>a\<in>set pre. attempt_fails (w a) (commands job)"
  shows "\<exists>s1. attempts w job (pre @ rest) s = attempts w job rest s1 \<and>
           effects s1 = effects s @
             concat (map (\<lambda>a. attempt_effects job (os_environ s) (w a) @ backoff job a) pre) \<and>
           os_environ s1 = os_environ s \<and> job_results s1 = job_results s"
  using assms
proof (induction pre arbitrary: s)
  case Nil
  show ?case by (rule exI [of _ s]) simp
next
  case (Cons a pre)
  from Cons.prems have "attempt_fails (w a) (commands job)" by simp
  with attempts_Cons_fail [of w a job "pre @ rest" s]
  obtain s1 where s1: "attempts w job (a # pre @ rest) s = attempts w job (pre @ rest) s1"
    "effects s1 = effects s @ attempt_effects job (os_environ s) (w a) @ backoff job a"
    "os_environ s1 = os_environ s" "job_results s1 = job_results s"
    by blast
  from Cons.prems have "\<forall>a\<in>set pre. attempt_fails (w a) (commands job)" by simp
  from Cons.IH [OF this, of s1]
  obtain s2 where s2: "attempts w job (pre @ rest) s1 = attempts w job rest s2"
    "effects s2 = effects s1 @
       concat (map (\<lambda>a. attempt_effects job (os_environ s1) (w a) @ backoff job a) pre)"
    "os_environ s2 = os_environ s1" "job_results s2 = job_results s1"
    by blast
  have "attempts w job ((a # pre) @ rest) s = attempts w job rest s2"
    by (simp only: append_Cons s1(1) s2(1))
  moreover have "effects s2 = effects s @
      concat (map (\<lambda>a. attempt_effects job (os_environ s) (w a) @ backoff job a) (a # pre))"
    using s1(2,3) s2(2) by simp
  moreover have "os_environ s2 = os_environ s" "job_results s2 = job_results s"
    using s1(3,4) s2(3,4) by simp_all
  ultimately show ?case by blast
qed

lemma backoff_within_budget:
  "int k \<le> retry_count job \<Longrightarrow>
   map (\<lambda>a. attempt_effects job env (w a) @ backoff job a) [0..<k] =
   map (\<lambda>a. attempt_effects job env (w a) @ [Sleep 2]) [0..<k]"
  by (rule map_cong) (auto simp: backoff_def)

lemma map_of_dict_merge:
  "distinct (map fst b) \<Longrightarrow> map_of (dict_merge a b) = map_of a ++ map_of b"
proof (induction b arbitrary: a)
  case Nil
  then show ?case by (simp add: dict_merge_def)
next
  case (Cons kv b)
  obtain k v where kv: "kv = (k, v)" by (cases kv)
  from Cons.prems kv have d: "distinct (map fst b)" and nk: "k \<notin> fst ` set b" by auto
  from nk have none: "map_of b k = None" by (simp add: map_of_eq_None_iff)
  have "map_of (dict_merge a (kv # b)) = map_of (dict_merge (AList.update k v a) b)"
    by (simp add: dict_merge_def kv)
  also have "\<dots> = map_of (AList.update k v a) ++ map_of b"
    using Cons.IH [OF d] .
  also have "\<dots> = (map_of a)(k \<mapsto> v) ++ map_of b"
    by (simp add: update_conv')
  also have "\<dots> = map_of a ++ map_of (kv # b)"
    using none by (auto simp: kv map_add_def fun_eq_iff split: option.splits)
  finally show ?case .
qed

text \<open>
  C9. When \<open>execute_job\<close> returns, \<open>job_results\<close> holds the returned boolean under the
  name of the job, a failed job included, and the entries of all other names are as
  they were before the call.
\<close>

theorem execute_job_records_result:
  "fst (execute_job w job s) = Inr b \<Longrightarrow>
     job_results (snd (execute_job w job s)) = AList.update (name job) b (job_results s) \<and>
     map_of (job_results (snd (execute_job w job s))) (name job) = Some b \<and>
     (\<forall>n. n \<noteq> name job \<longrightarrow>
        map_of (job_results (snd (execute_job w job s))) n = map_of (job_results s) n)"
  using execute_job_job_results [of w job s] by (simp add: update_conv')

theorem execute_job_records_result_witness:
  "fst (execute_job (always_exits 1) validate_job example_state) = Inr False \<and>
   job_results (snd (execute_job (always_exits 1) validate_job example_state)) =
     [(''Build Application'', True), (''Environment Validation'', False)]"
proof -
  have h: "fst (execute_job (always_exits 1) validate_job example_state) = Inr False"
    by code_simp
  from execute_job_records_result [OF h] h show ?thesis
    by (simp add: validate_job_def mk_job_def blank_def example_state_def)
qed

text \<open>
  C7. \<open>execute_job\<close> leaves the environment of the parent process as it was. Every
  subprocess it starts gets the merged dictionary \<open>{**os.environ, **job.environment}\<close>,
  in which the entries of the job override those of the process.
\<close>

theorem execute_job_environment_scoped:
  "os_environ (snd (execute_job w job s)) = os_environ s \<and>
   (\<exists>es. effects (snd (execute_job w job s)) = effects s @ es \<and>
         (\<forall>e\<in>set es. is_spawn_with (dict_merge (os_environ s) (job_environment job)) e)) \<and>
   (distinct (map fst (job_environment job)) \<longrightarrow>
      map_of (dict_merge (os_environ s) (job_environment job)) =
        map_of (os_environ s) ++ map_of (job_environment job))"
proof -
  let ?s0 = "log INFO (Executing_job (name job)) s"
  from attempts_effects_grow [of w job "py_range (retry_count job + 1)" ?s0]
  have "\<exists>es. effects (snd (execute_job w job s)) = effects s @ es \<and>
         (\<forall>e\<in>set es. is_spawn_with (dict_merge (os_environ s) (job_environment job)) e)"
    by (simp add: execute_job_effects log_def)
  then show ?thesis
    by (simp add: execute_job_os_environ map_of_dict_merge)
qed

theorem execute_job_environment_scoped_witness:
  "os_environ (snd (execute_job (always_exits 0) build_job example_state)) =
     os_environ example_state \<and>
   (\<exists>es. effects (snd (execute_job (always_exits 0) build_job example_state)) =
           effects example_state @ es \<and>
         (\<forall>e\<in>set es. is_spawn_with
            (dict_merge (os_environ example_state) (job_environment build_job)) e)) \<and>
   distinct (map fst (job_environment build_job)) \<and>
   map_of (dict_merge (os_environ example_state) (job_environment build_job)) =
     map_of (os_environ example_state) ++ map_of (job_environment build_job)"
proof -
  have d: "distinct (map fst (job_environment build_job))"
    by (simp add: build_job_def mk_job_def)
  from execute_job_environment_scoped [of "always_exits 0" build_job example_state] d
  show ?thesis by blast
qed

lemma py_range_Suc: "0 \<le> r \<Longrightarrow> py_range (r + 1) = [0..<nat r + 1]"
  by (simp add: py_range_def nat_add_distrib)

section \<open>Retries: the number of attempts\<close>

lemma execute_job_retry_loop:
  assumes "0 \<le> retry_count job"
  shows "((\<forall>a<nat (retry_count job) + 1. attempt_fails (w a) (commands job)) \<longrightarrow>
            fst (execute_job w job s) = Inr False \<and>
            effects (snd (execute_job w job s)) = effects s @
              concat (map (\<lambda>a. attempt_effects job (os_environ s) (w a) @ backoff job a)
                        [0..<nat (retry_count job) + 1])) \<and>
         (1 \<le> k \<and> int k \<le> retry_count job + 1 \<and>
          (\<forall>a<k - 1. attempt_fails (w a) (commands job)) \<and>
          attempt_succeeds (w (k - 1)) (commands job) \<longrightarrow>
            fst (execute_job w job s) = Inr True \<and>
            effects (snd (execute_job w job s)) = effects s @
              concat (map (\<lambda>a. attempt_effects job (os_environ s) (w a) @ [Sleep 2])
                        [0..<k - 1]) @
              map (spawn_effect job (os_environ s)) (commands job))"
proof (intro conjI impI)
  let ?s0 = "log INFO (Executing_job (name job)) s"
  let ?n = "nat (retry_count job) + 1"
  assume "\<forall>a<?n. attempt_fails (w a) (commands job)"
  then have "\<forall>a\<in>set [0..<?n]. attempt_fails (w a) (commands job)" by simp
  from attempts_all_fail [OF this, of ?s0]
  obtain s1 where s1: "attempts w job [0..<?n] ?s0 = (Inr None, s1)"
    "effects s1 = effects ?s0 @
       concat (map (\<lambda>a. attempt_effects job (os_environ ?s0) (w a) @ backoff job a) [0..<?n])"
    by blast
  from s1(1) show "fst (execute_job w job s) = Inr False"
    by (simp add: execute_job_result py_range_Suc [OF assms])
  from s1 show "effects (snd (execute_job w job s)) = effects s @
      concat (map (\<lambda>a. attempt_effects job (os_environ s) (w a) @ backoff job a) [0..<?n])"
    by (simp add: execute_job_effects py_range_Suc [OF assms] log_def)
next
  let ?s0 = "log INFO (Executing_job (name job)) s"
  let ?n = "nat (retry_count job) + 1"
  assume h: "1 \<le> k \<and> int k \<le> retry_count job + 1 \<and>
          (\<forall>a<k - 1. attempt_fails (w a) (commands job)) \<and>
          attempt_succeeds (w (k - 1)) (commands job)"
  then have lt: "k - 1 < ?n" and le: "int (k - 1) \<le> retry_count job" by linarith+
  from h have pre: "\<forall>a\<in>set [0..<k - 1]. attempt_fails (w a) (commands job)" by simp
  from h have ok: "attempt_succeeds (w (k - 1)) (commands job)" by simp
  from attempts_fail_then_success [OF pre ok, of "[Suc (k - 1)..<?n]" ?s0]
  obtain s1 where s1: "attempts w job ([0..<k - 1] @ (k - 1) # [Suc (k - 1)..<?n]) ?s0 =
       (Inr (Some True), s1)"
    "effects s1 = effects ?s0 @
       concat (map (\<lambda>a. attempt_effects job (os_environ ?s0) (w a) @ backoff job a) [0..<k - 1]) @
       map (spawn_effect job (os_environ ?s0)) (commands job)"
    by blast
  have att: "attempts w job (py_range (retry_count job + 1)) ?s0 = (Inr (Some True), s1)"
    using s1(1) upt_split [OF lt] py_range_Suc [OF assms] by simp
  from att show "fst (execute_job w job s) = Inr True"
    by (simp add: execute_job_result)
  have "effects (snd (execute_job w job s)) = effects s1"
    using att by (simp add: execute_job_effects)
  also have "\<dots> = effects s @
      concat (map (\<lambda>a. attempt_effects job (os_environ s) (w a) @ backoff job a) [0..<k - 1]) @
      map (spawn_effect job (os_environ s)) (commands job)"
    using s1(2) by (simp add: log_def)
  finally show "effects (snd (execute_job w job s)) = effects s @
      concat (map (\<lambda>a. attempt_effects job (os_environ s) (w a) @ [Sleep 2]) [0..<k - 1]) @
      map (spawn_effect job (os_environ s)) (commands job)"
    by (simp only: backoff_within_budget [OF le])
qed

text \<open>
  C1. A job with \<open>retry_count = r \<ge> 0\<close> all of whose attempts fail by a command
  that returns a non-zero status (none exceeds the timeout or raises) is reported failed
  after exactly \<open>r + 1\<close> attempts: the effects of the call are the
  subprocesses of the attempts \<open>0, \<dots>, r\<close>, one block per attempt, with the sleep
  between two attempts. A job whose attempt number \<open>k \<le> r + 1\<close> is the first to
  succeed returns true after the blocks of exactly \<open>k\<close> attempts, the last of them the
  whole command sequence, and nothing follows it.
\<close>

theorem execute_job_attempt_count:
  assumes "0 \<le> retry_count job"
  shows "((\<forall>a<nat (retry_count job) + 1. attempt_fails (w a) (commands job)) \<longrightarrow>
            fst (execute_job w job s) = Inr False \<and>
            effects (snd (execute_job w job s)) = effects s @
              concat (map (\<lambda>a. attempt_effects job (os_environ s) (w a) @ backoff job a)
                        [0..<nat (retry_count job) + 1])) \<and>
         (1 \<le> k \<and> int k \<le> retry_count job + 1 \<and>
          (\<forall>a<k - 1. attempt_fails (w a) (commands job)) \<and>
          attempt_succeeds (w (k - 1)) (commands job) \<longrightarrow>
            fst (execute_job w job s) = Inr True \<and>
            effects (snd (execute_job w job s)) = effects s @
              concat (map (\<lambda>a. attempt_effects job (os_environ s) (w a) @ [Sleep 2])
                        [0..<k - 1]) @
              map (spawn_effect job (os_environ s)) (commands job))"
  by (rule execute_job_retry_loop [OF assms])

theorem execute_job_attempt_count_witness:
  "0 \<le> retry_count validate_job \<and> nat (retry_count validate_job) + 1 = 3 \<and>
   attempt_fails (always_exits 1 0) (commands validate_job) \<and>
   attempt_fails (always_exits 1 1) (commands validate_job) \<and>
   attempt_fails (always_exits 1 2) (commands validate_job) \<and>
   fst (execute_job (always_exits 1) validate_job (blank [])) = Inr False \<and>
   effects (snd (execute_job (always_exits 1) validate_job (blank []))) =
     [Spawn ''python nits_rdl_deployment.py --help'' [] 900, Sleep 2,
      Spawn ''python nits_rdl_deployment.py --help'' [] 900, Sleep 2,
      Spawn ''python nits_rdl_deployment.py --help'' [] 900] \<and>
   (1::nat) \<le> 2 \<and> int 2 \<le> retry_count validate_job + 1 \<and>
   attempt_fails (succeeds_from 1 0) (commands validate_job) \<and>
   attempt_succeeds (succeeds_from 1 (2 - 1)) (commands validate_job) \<and>
   fst (execute_job (succeeds_from 1) validate_job (blank [])) = Inr True \<and>
   effects (snd (execute_job (succeeds_from 1) validate_job (blank []))) =
     [Spawn ''python nits_rdl_deployment.py --help'' [] 900, Sleep 2,
      Spawn ''python nits_rdl_deployment.py --help'' [] 900]"
proof -
  have r: "0 \<le> retry_count validate_job"
    by (simp add: validate_job_def mk_job_def)
  have f: "\<forall>a<nat (retry_count validate_job) + 1.
      attempt_fails (always_exits 1 a) (commands validate_job)"
    by (simp add: attempt_fails_def always_exits_def validate_job_def mk_job_def)
  have k: "(1::nat) \<le> 2 \<and> int 2 \<le> retry_count validate_job + 1 \<and>
      (\<forall>a<2 - 1. attempt_fails (succeeds_from 1 a) (commands validate_job)) \<and>
      attempt_succeeds (succeeds_from 1 (2 - 1)) (commands validate_job)"
    by (simp add: attempt_fails_def attempt_succeeds_def succeeds_from_def validate_job_def
          mk_job_def)
  have g: "nat (retry_count validate_job) + 1 = 3 \<and>
      attempt_fails (always_exits 1 0) (commands validate_job) \<and>
      attempt_fails (always_exits 1 1) (commands validate_job) \<and>
      attempt_fails (always_exits 1 2) (commands validate_job) \<and>
      (1::nat) \<le> 2 \<and> int 2 \<le> retry_count validate_job + 1 \<and>
      attempt_fails (succeeds_from 1 0) (commands validate_job) \<and>
      attempt_succeeds (succeeds_from 1 (2 - 1)) (commands validate_job)"
    by (simp add: attempt_fails_def attempt_succeeds_def succeeds_from_def always_exits_def
          validate_job_def mk_job_def)
  have c1: "effects (blank []) @
      concat (map (\<lambda>a. attempt_effects validate_job (os_environ (blank [])) (always_exits 1 a) @
                        backoff validate_job a)
                [0..<nat (retry_count validate_job) + 1]) =
     [Spawn ''python nits_rdl_deployment.py --help'' [] 900, Sleep 2,
      Spawn ''python nits_rdl_deployment.py --help'' [] 900, Sleep 2,
      Spawn ''python nits_rdl_deployment.py --help'' [] 900]"
    by code_simp
  have c2: "effects (blank []) @
      concat (map (\<lambda>a. attempt_effects validate_job (os_environ (blank [])) (succeeds_from 1 a) @
                        [Sleep 2])
                [0..<2 - 1]) @
      map (spawn_effect validate_job (os_environ (blank []))) (commands validate_job) =
     [Spawn ''python nits_rdl_deployment.py --help'' [] 900, Sleep 2,
      Spawn ''python nits_rdl_deployment.py --help'' [] 900]"
    by code_simp
  from execute_job_attempt_count [OF r, of "always_exits 1" "blank []" 2] f
  have a1: "fst (execute_job (always_exits 1) validate_job (blank [])) = Inr False"
    "effects (snd (execute_job (always_exits 1) validate_job (blank []))) =
       effects (blank []) @
      concat (map (\<lambda>a. attempt_effects validate_job (os_environ (blank [])) (always_exits 1 a) @
                        backoff validate_job a)
                [0..<nat (retry_count validate_job) + 1])"
    by blast+
  from execute_job_attempt_count [OF r, of "succeeds_from 1" "blank []" 2] k
  have a2: "fst (execute_job (succeeds_from 1) validate_job (blank [])) = Inr True"
    "effects (snd (execute_job (succeeds_from 1) validate_job (blank []))) =
       effects (blank []) @
      concat (map (\<lambda>a. attempt_effects validate_job (os_environ (blank [])) (succeeds_from 1 a) @
                        [Sleep 2])
                [0..<2 - 1]) @
      map (spawn_effect validate_job (os_environ (blank []))) (commands validate_job)"
    by blast+
  show ?thesis
    using r g a1(1) a2(1) a1(2) [unfolded c1] a2(2) [unfolded c2] by blast
qed

section \<open>Short circuit, backoff and restart\<close>

text \<open>
  C6. In one attempt, when the command at position \<open>p\<close> is the first that does not
  return 0, the commands after it are not run and the attempt has failed. When the
  attempts up to \<open>a\<close> have failed and \<open>a\<close> is below \<open>retry_count\<close>, each of them is
  followed by one sleep of 2 seconds, and the next attempt starts again with the first
  command of the job and runs the sequence as far as its own first failing command: all
  of it when every command returns 0.
\<close>

theorem attempt_short_circuit_and_restart:
  "(p < length (commands job) \<and> (\<forall>q<p. wa q = Exit 0) \<and> wa p = Exit rc \<and> rc \<noteq> 0 \<longrightarrow>
      fst (run_commands wa job 0 (commands job) s) = Inr False \<and>
      effects (snd (run_commands wa job 0 (commands job) s)) =
        effects s @ map (spawn_effect job (os_environ s)) (take (Suc p) (commands job))) \<and>
   ((\<forall>b\<le>a. attempt_fails (w b) (commands job)) \<and> int a < retry_count job \<longrightarrow>
      (\<exists>rest. effects (snd (execute_job w job s)) =
         effects s @
         concat (map (\<lambda>b. attempt_effects job (os_environ s) (w b) @ [Sleep 2]) [0..<Suc a]) @
         map (spawn_effect job (os_environ s))
           (take (Suc (passed (w (Suc a)) 0 (commands job))) (commands job)) @ rest) \<and>
      (attempt_succeeds (w (Suc a)) (commands job) \<longrightarrow>
         take (Suc (passed (w (Suc a)) 0 (commands job))) (commands job) = commands job))"
proof (intro conjI impI)
  assume h: "p < length (commands job) \<and> (\<forall>q<p. wa q = Exit 0) \<and> wa p = Exit rc \<and> rc \<noteq> 0"
  then have "wa (0 + p) \<noteq> Exit 0" by simp
  with h have pp: "passed wa 0 (commands job) = p"
    using passed_first [of p "commands job" wa 0] by simp
  from h pp show "fst (run_commands wa job 0 (commands job) s) = Inr False"
    by (simp add: run_commands_result)
  from pp show "effects (snd (run_commands wa job 0 (commands job) s)) =
        effects s @ map (spawn_effect job (os_environ s)) (take (Suc p) (commands job))"
    by (simp add: run_commands_effects)
next
  let ?s0 = "log INFO (Executing_job (name job)) s"
  assume h: "(\<forall>b\<le>a. attempt_fails (w b) (commands job)) \<and> int a < retry_count job"
  then have lt: "Suc a < nat (retry_count job + 1)" and le: "int (Suc a) \<le> retry_count job"
    by linarith+
  have range: "py_range (retry_count job + 1) =
      [0..<Suc a] @ Suc a # [Suc (Suc a)..<nat (retry_count job + 1)]"
    using upt_split [OF lt] by (simp add: py_range_def)
  from h have "\<forall>b\<in>set [0..<Suc a]. attempt_fails (w b) (commands job)" by simp
  from attempts_append_fail [OF this,
      of "Suc a # [Suc (Suc a)..<nat (retry_count job + 1)]" ?s0]
  obtain s1 where s1:
    "attempts w job ([0..<Suc a] @ Suc a # [Suc (Suc a)..<nat (retry_count job + 1)]) ?s0 =
       attempts w job (Suc a # [Suc (Suc a)..<nat (retry_count job + 1)]) s1"
    "effects s1 = effects ?s0 @
       concat (map (\<lambda>b. attempt_effects job (os_environ ?s0) (w b) @ backoff job b) [0..<Suc a])"
    "os_environ s1 = os_environ ?s0"
    by blast
  from attempts_Cons_effects [of w job "Suc a" "[Suc (Suc a)..<nat (retry_count job + 1)]" s1]
  obtain rest where rest:
    "effects (snd (attempts w job (Suc a # [Suc (Suc a)..<nat (retry_count job + 1)]) s1)) =
       effects s1 @ attempt_effects job (os_environ s1) (w (Suc a)) @ rest"
    by blast
  have "effects (snd (execute_job w job s)) =
      effects s1 @ attempt_effects job (os_environ s1) (w (Suc a)) @ rest"
    using rest s1(1) by (simp only: execute_job_effects range)
  also have "\<dots> = effects s @
      concat (map (\<lambda>b. attempt_effects job (os_environ s) (w b) @ backoff job b) [0..<Suc a]) @
      attempt_effects job (os_environ s) (w (Suc a)) @ rest"
    using s1(2,3) by (simp add: log_def)
  also have "\<dots> = effects s @
      concat (map (\<lambda>b. attempt_effects job (os_environ s) (w b) @ [Sleep 2]) [0..<Suc a]) @
      attempt_effects job (os_environ s) (w (Suc a)) @ rest"
    by (simp only: backoff_within_budget [OF le])
  finally show "\<exists>rest. effects (snd (execute_job w job s)) =
         effects s @
         concat (map (\<lambda>b. attempt_effects job (os_environ s) (w b) @ [Sleep 2]) [0..<Suc a]) @
         map (spawn_effect job (os_environ s))
           (take (Suc (passed (w (Suc a)) 0 (commands job))) (commands job)) @ rest"
    unfolding attempt_effects_def by blast
next
  assume "attempt_succeeds (w (Suc a)) (commands job)"
  then show "take (Suc (passed (w (Suc a)) 0 (commands job))) (commands job) = commands job"
    by (simp add: attempt_succeeds_def)
qed

theorem attempt_short_circuit_and_restart_witness:
  "1 < length (commands build_job) \<and> fails_second_once 0 0 = Exit 0 \<and>
   fails_second_once 0 1 = Exit 1 \<and> (1::int) \<noteq> 0 \<and>
   fst (run_commands (fails_second_once 0) build_job 0 (commands build_job) (blank [])) =
     Inr False \<and>
   effects (snd (run_commands (fails_second_once 0) build_job 0 (commands build_job) (blank []))) =
     [Spawn ''rm -rf node_modules/.vite-temp'' [(''NODE_ENV'', ''production'')] 900,
      Spawn ''npm ci --include=dev'' [(''NODE_ENV'', ''production'')] 900] \<and>
   attempt_fails (fails_second_once 0) (commands build_job) \<and>
   int 0 < retry_count build_job \<and>
   attempt_succeeds (fails_second_once (Suc 0)) (commands build_job) \<and>
   (\<exists>rest. effects (snd (execute_job fails_second_once build_job (blank []))) =
     [Spawn ''rm -rf node_modules/.vite-temp'' [(''NODE_ENV'', ''production'')] 900,
      Spawn ''npm ci --include=dev'' [(''NODE_ENV'', ''production'')] 900,
      Sleep 2,
      Spawn ''rm -rf node_modules/.vite-temp'' [(''NODE_ENV'', ''production'')] 900,
      Spawn ''npm ci --include=dev'' [(''NODE_ENV'', ''production'')] 900,
      Spawn ''npm run build'' [(''NODE_ENV'', ''production'')] 900] @ rest)"
proof -
  have h1: "1 < length (commands build_job) \<and> (\<forall>q<1. fails_second_once 0 q = Exit 0) \<and>
      fails_second_once 0 1 = Exit 1 \<and> (1::int) \<noteq> 0"
    by (simp add: fails_second_once_def build_job_def mk_job_def)
  have h2: "(\<forall>b\<le>0. attempt_fails (fails_second_once b) (commands build_job)) \<and>
      int 0 < retry_count build_job"
    by (simp add: attempt_fails_def fails_second_once_def build_job_def mk_job_def)
  have h3: "attempt_succeeds (fails_second_once (Suc 0)) (commands build_job)"
    by (simp add: attempt_succeeds_def fails_second_once_def build_job_def mk_job_def)
  have g: "1 < length (commands build_job) \<and> fails_second_once 0 0 = Exit 0 \<and>
      fails_second_once 0 1 = Exit 1 \<and> (1::int) \<noteq> 0 \<and>
      attempt_fails (fails_second_once 0) (commands build_job) \<and>
      int 0 < retry_count build_job"
    by (simp add: attempt_fails_def fails_second_once_def build_job_def mk_job_def)
  have c1: "effects (blank []) @
      map (spawn_effect build_job (os_environ (blank []))) (take (Suc 1) (commands build_job)) =
     [Spawn ''rm -rf node_modules/.vite-temp'' [(''NODE_ENV'', ''production'')] 900,
      Spawn ''npm ci --include=dev'' [(''NODE_ENV'', ''production'')] 900]"
    by code_simp
  have c2: "(effects (blank []) @
      concat (map (\<lambda>b. attempt_effects build_job (os_environ (blank [])) (fails_second_once b) @
                        [Sleep 2]) [0..<Suc 0])) @
      map (spawn_effect build_job (os_environ (blank [])))
        (take (Suc (passed (fails_second_once (Suc 0)) 0 (commands build_job)))
           (commands build_job)) =
     [Spawn ''rm -rf node_modules/.vite-temp'' [(''NODE_ENV'', ''production'')] 900,
      Spawn ''npm ci --include=dev'' [(''NODE_ENV'', ''production'')] 900,
      Sleep 2,
      Spawn ''rm -rf node_modules/.vite-temp'' [(''NODE_ENV'', ''production'')] 900,
      Spawn ''npm ci --include=dev'' [(''NODE_ENV'', ''production'')] 900,
      Spawn ''npm run build'' [(''NODE_ENV'', ''production'')] 900]"
    by code_simp
  note inst = attempt_short_circuit_and_restart
    [of 1 build_job "fails_second_once 0" 1 "blank []" 0 fails_second_once]
  from inst h1 have a1:
    "fst (run_commands (fails_second_once 0) build_job 0 (commands build_job) (blank [])) =
       Inr False"
    "effects (snd (run_commands (fails_second_once 0) build_job 0 (commands build_job) (blank []))) =
       effects (blank []) @
       map (spawn_effect build_job (os_environ (blank []))) (take (Suc 1) (commands build_job))"
    by blast+
  from inst h2 obtain rest where
    "effects (snd (execute_job fails_second_once build_job (blank []))) =
       effects (blank []) @
       concat (map (\<lambda>b. attempt_effects build_job (os_environ (blank [])) (fails_second_once b) @
                        [Sleep 2]) [0..<Suc 0]) @
       map (spawn_effect build_job (os_environ (blank [])))
        (take (Suc (passed (fails_second_once (Suc 0)) 0 (commands build_job)))
           (commands build_job)) @ rest"
    by blast
  then have "effects (snd (execute_job fails_second_once build_job (blank []))) =
       ((effects (blank []) @
       concat (map (\<lambda>b. attempt_effects build_job (os_environ (blank [])) (fails_second_once b) @
                        [Sleep 2]) [0..<Suc 0])) @
       map (spawn_effect build_job (os_environ (blank [])))
        (take (Suc (passed (fails_second_once (Suc 0)) 0 (commands build_job)))
           (commands build_job))) @ rest"
    by (simp only: append_assoc)
  then have a2: "\<exists>rest. effects (snd (execute_job fails_second_once build_job (blank []))) =
     [Spawn ''rm -rf node_modules/.vite-temp'' [(''NODE_ENV'', ''production'')] 900,
      Spawn ''npm ci --include=dev'' [(''NODE_ENV'', ''production'')] 900,
      Sleep 2,
      Spawn ''rm -rf node_modules/.vite-temp'' [(''NODE_ENV'', ''production'')] 900,
      Spawn ''npm ci --include=dev'' [(''NODE_ENV'', ''production'')] 900,
      Spawn ''npm run build'' [(''NODE_ENV'', ''production'')] 900] @ rest"
    unfolding c2 by (rule exI)
  show ?thesis
    using g h3 a1(1) a1(2) [unfolded c1] a2 by blast
qed

section \<open>Timeouts\<close>

lemma execute_job_timed_out:
  assumes "attempts w job (py_range (retry_count job + 1))
             (log INFO (Executing_job (name job)) s) = (Inl TimeoutExpired, s1)"
  shows "execute_job w job s =
     (Inr False,
      set_result (name job) False
        (log ERROR (Job_timed_out (name job) (job_timeout_minutes job)) s1))"
  using assms by (simp add: execute_job_def)

text \<open>
  C3, as the code has it. When the attempts before attempt \<open>k \<le> retry_count\<close> have
  failed by a command and a command of attempt \<open>k\<close> exceeds the timeout,
  \<open>subprocess.TimeoutExpired\<close> leaves the loop of attempts: the handler logs that the
  job timed out (a message of its own, not the one of a failed command), the job is
  recorded and returned as failed, and nothing is run after the command that timed out:
  no sleep and no further attempt, whatever is left of the retry budget.
\<close>

theorem execute_job_timeout_ends_job:
  "(\<forall>a<k. attempt_fails (w a) (commands job)) \<and> int k \<le> retry_count job \<and>
   attempt_times_out (w k) (commands job) \<longrightarrow>
     fst (execute_job w job s) = Inr False \<and>
     job_results (snd (execute_job w job s)) = AList.update (name job) False (job_results s) \<and>
     last (logged (snd (execute_job w job s))) =
       (ERROR, Job_timed_out (name job) (job_timeout_minutes job)) \<and>
     effects (snd (execute_job w job s)) =
       effects s @
       concat (map (\<lambda>a. attempt_effects job (os_environ s) (w a) @ [Sleep 2]) [0..<k]) @
       attempt_effects job (os_environ s) (w k)"
proof
  let ?s0 = "log INFO (Executing_job (name job)) s"
  assume h: "(\<forall>a<k. attempt_fails (w a) (commands job)) \<and> int k \<le> retry_count job \<and>
     attempt_times_out (w k) (commands job)"
  then have lt: "k < nat (retry_count job + 1)" and le: "int k \<le> retry_count job"
    by linarith+
  have range: "py_range (retry_count job + 1) = [0..<k] @ k # [Suc k..<nat (retry_count job + 1)]"
    using upt_split [OF lt] by (simp add: py_range_def)
  from h have pre: "\<forall>a\<in>set [0..<k]. attempt_fails (w a) (commands job)" by simp
  from h have to: "passed (w k) 0 (commands job) < length (commands job)"
    "w k (passed (w k) 0 (commands job)) = Raise TimeoutExpired"
    by (simp_all add: attempt_times_out_def)
  from attempts_fail_then_raise [OF pre to, of "[Suc k..<nat (retry_count job + 1)]" ?s0]
  obtain s1 where s1:
    "attempts w job ([0..<k] @ k # [Suc k..<nat (retry_count job + 1)]) ?s0 =
       (Inl TimeoutExpired, s1)"
    "effects s1 = effects ?s0 @
       concat (map (\<lambda>a. attempt_effects job (os_environ ?s0) (w a) @ backoff job a) [0..<k]) @
       attempt_effects job (os_environ ?s0) (w k)"
    "job_results s1 = job_results ?s0"
    by blast
  from s1(1) have "attempts w job (py_range (retry_count job + 1)) ?s0 = (Inl TimeoutExpired, s1)"
    by (simp only: range)
  from execute_job_timed_out [OF this]
  have ex: "execute_job w job s =
     (Inr False,
      set_result (name job) False
        (log ERROR (Job_timed_out (name job) (job_timeout_minutes job)) s1))" .
  have e: "effects s1 = effects s @
       concat (map (\<lambda>a. attempt_effects job (os_environ s) (w a) @ [Sleep 2]) [0..<k]) @
       attempt_effects job (os_environ s) (w k)"
    using s1(2) by (simp add: log_def backoff_within_budget [OF le])
  show "fst (execute_job w job s) = Inr False \<and>
     job_results (snd (execute_job w job s)) = AList.update (name job) False (job_results s) \<and>
     last (logged (snd (execute_job w job s))) =
       (ERROR, Job_timed_out (name job) (job_timeout_minutes job)) \<and>
     effects (snd (execute_job w job s)) =
       effects s @
       concat (map (\<lambda>a. attempt_effects job (os_environ s) (w a) @ [Sleep 2]) [0..<k]) @
       attempt_effects job (os_environ s) (w k)"
    using s1(3) e by (simp add: ex set_result_def log_def)
qed

theorem execute_job_timeout_ends_job_witness:
  "attempt_fails (times_out_from 1 0) (commands validate_job) \<and>
   int 1 \<le> retry_count validate_job \<and>
   attempt_times_out (times_out_from 1 1) (commands validate_job) \<and>
   fst (execute_job (times_out_from 1) validate_job example_state) = Inr False \<and>
   job_results (snd (execute_job (times_out_from 1) validate_job example_state)) =
     [(''Build Application'', True), (''Environment Validation'', False)] \<and>
   last (logged (snd (execute_job (times_out_from 1) validate_job example_state))) =
     (ERROR, Job_timed_out ''Environment Validation'' 15) \<and>
   effects (snd (execute_job (times_out_from 1) validate_job example_state)) =
     [Spawn ''python nits_rdl_deployment.py --help'' example_environ 900, Sleep 2,
      Spawn ''python nits_rdl_deployment.py --help'' example_environ 900]"
proof -
  have h: "(\<forall>a<1. attempt_fails (times_out_from 1 a) (commands validate_job)) \<and>
      int 1 \<le> retry_count validate_job \<and>
      attempt_times_out (times_out_from 1 1) (commands validate_job)"
    by (simp add: attempt_fails_def attempt_times_out_def times_out_from_def validate_job_def
          mk_job_def)
  have g: "attempt_fails (times_out_from 1 0) (commands validate_job) \<and>
      int 1 \<le> retry_count validate_job \<and>
      attempt_times_out (times_out_from 1 1) (commands validate_job)"
    by (simp add: attempt_fails_def attempt_times_out_def times_out_from_def validate_job_def
          mk_job_def)
  have c1: "AList.update (name validate_job) False (job_results example_state) =
      [(''Build Application'', True), (''Environment Validation'', False)]"
    by (simp add: validate_job_def mk_job_def example_state_def blank_def)
  have c2: "(ERROR, Job_timed_out (name validate_job) (job_timeout_minutes validate_job)) =
      (ERROR, Job_timed_out ''Environment Validation'' 15)"
    by (simp add: validate_job_def mk_job_def)
  have c3: "effects example_state @
       concat (map (\<lambda>a. attempt_effects validate_job (os_environ example_state)
                          (times_out_from 1 a) @ [Sleep 2]) [0..<1]) @
       attempt_effects validate_job (os_environ example_state) (times_out_from 1 1) =
     [Spawn ''python nits_rdl_deployment.py --help'' example_environ 900, Sleep 2,
      Spawn ''python nits_rdl_deployment.py --help'' example_environ 900]"
    by code_simp
  from execute_job_timeout_ends_job [of 1 "times_out_from 1" validate_job example_state] h
  have a: "fst (execute_job (times_out_from 1) validate_job example_state) = Inr False"
    "job_results (snd (execute_job (times_out_from 1) validate_job example_state)) =
       AList.update (name validate_job) False (job_results example_state)"
    "last (logged (snd (execute_job (times_out_from 1) validate_job example_state))) =
       (ERROR, Job_timed_out (name validate_job) (job_timeout_minutes validate_job))"
    "effects (snd (execute_job (times_out_from 1) validate_job example_state)) =
       effects example_state @
       concat (map (\<lambda>a. attempt_effects validate_job (os_environ example_state)
                          (times_out_from 1 a) @ [Sleep 2]) [0..<1]) @
       attempt_effects validate_job (os_environ example_state) (times_out_from 1 1)"
    by blast+
  show ?thesis
    using g a(1) a(2) [unfolded c1] a(3) [unfolded c2] a(4) [unfolded c3] by blast
qed

text \<open>
  The claim that a timed-out attempt is retried like one that failed by a return code
  does not hold: with two retries left, the job whose command times out starts one
  subprocess and stops, while the job whose command returns 1 starts three.
\<close>

theorem execute_job_timeout_retry_counterexample:
  "int 0 < retry_count validate_job \<and>
   attempt_times_out (always_times_out 0) (commands validate_job) \<and>
   effects (snd (execute_job always_times_out validate_job (blank []))) =
     [Spawn ''python nits_rdl_deployment.py --help'' [] 900] \<and>
   fst (execute_job always_times_out validate_job (blank [])) = Inr False \<and>
   effects (snd (execute_job (always_exits 1) validate_job (blank []))) =
     [Spawn ''python nits_rdl_deployment.py --help'' [] 900, Sleep 2,
      Spawn ''python nits_rdl_deployment.py --help'' [] 900, Sleep 2,
      Spawn ''python nits_rdl_deployment.py --help'' [] 900]"
proof -
  have "int 0 < retry_count validate_job \<and>
      attempt_times_out (always_times_out 0) (commands validate_job)"
    by (simp add: attempt_times_out_def always_times_out_def validate_job_def mk_job_def)
  moreover have "effects (snd (execute_job always_times_out validate_job (blank []))) =
     [Spawn ''python nits_rdl_deployment.py --help'' [] 900]"
    by code_simp
  moreover have "fst (execute_job always_times_out validate_job (blank [])) = Inr False"
    by code_simp
  moreover have "effects (snd (execute_job (always_exits 1) validate_job (blank []))) =
     [Spawn ''python nits_rdl_deployment.py --help'' [] 900, Sleep 2,
      Spawn ''python nits_rdl_deployment.py --help'' [] 900, Sleep 2,
      Spawn ''python nits_rdl_deployment.py --help'' [] 900]"
    by code_simp
  ultimately show ?thesis by blast
qed

section \<open>The verdict and the effects of a job do not depend on the state\<close>

lemma attempts_fst_indep: "fst (attempts w job as s) = fst (attempts w job as s')"
proof (induction as arbitrary: s s')
  case Nil
  then show ?case by simp
next
  case (Cons a as)
  obtain r s0 where run: "run_commands (w a) job 0 (commands job) s = (r, s0)"
    by (cases "run_commands (w a) job 0 (commands job) s")
  obtain r' s0' where run': "run_commands (w a) job 0 (commands job) s' = (r', s0')"
    by (cases "run_commands (w a) job 0 (commands job) s'")
  from run run' run_commands_result [of "w a" job 0 "commands job" s]
    run_commands_result [of "w a" job 0 "commands job" s']
  have rr: "r' = r" by simp
  show ?case
  proof (cases r)
    case (Inl e)
    with run run' rr show ?thesis by simp
  next
    case (Inr success)
    show ?thesis
    proof (cases success)
      case True
      with Inr run run' rr show ?thesis by simp
    next
      case False
      show ?thesis
      proof (cases "int a < retry_count job")
        case True
        with \<open>\<not> success\<close> Inr run run' rr
          Cons.IH [of "emit (Sleep 2)
              (log WARNING (Job_retrying (name job) (int a + 1) (retry_count job)) s0)"
            "emit (Sleep 2)
              (log WARNING (Job_retrying (name job) (int a + 1) (retry_count job)) s0')"]
        show ?thesis by simp
      next
        case False
        with \<open>\<not> success\<close> Inr run run' rr Cons.IH [of s0 s0']
        show ?thesis by simp
      qed
    qed
  qed
qed

lemma attempts_effects_indep:
  "os_environ s = os_environ s' \<Longrightarrow>
   \<exists>es. effects (snd (attempts w job as s)) = effects s @ es \<and>
        effects (snd (attempts w job as s')) = effects s' @ es"
proof (induction as arbitrary: s s')
  case Nil
  then show ?case by simp
next
  case (Cons a as)
  let ?A = "attempt_effects job (os_environ s) (w a)"
  obtain r s0 where run: "run_commands (w a) job 0 (commands job) s = (r, s0)"
    by (cases "run_commands (w a) job 0 (commands job) s")
  obtain r' s0' where run': "run_commands (w a) job 0 (commands job) s' = (r', s0')"
    by (cases "run_commands (w a) job 0 (commands job) s'")
  from run run' run_commands_result [of "w a" job 0 "commands job" s]
    run_commands_result [of "w a" job 0 "commands job" s']
  have rr: "r' = r" by simp
  from run run_commands_effects [of "w a" job 0 "commands job" s]
  have e: "effects s0 = effects s @ ?A" by (simp add: attempt_effects_def)
  from run' run_commands_effects [of "w a" job 0 "commands job" s'] Cons.prems
  have e': "effects s0' = effects s' @ ?A" by (simp add: attempt_effects_def)
  from run run' run_commands_frame [of "w a" job 0 "commands job" s]
    run_commands_frame [of "w a" job 0 "commands job" s'] Cons.prems
  have f: "os_environ s0 = os_environ s0'" by simp
  show ?case
  proof (cases r)
    case (Inl x)
    with run run' rr e e' show ?thesis by simp
  next
    case (Inr success)
    show ?thesis
    proof (cases success)
      case True
      with Inr run run' rr e e' show ?thesis by (simp add: set_result_def log_def)
    next
      case False
      define nxt where "nxt = (\<lambda>t. if int a < retry_count job
        then emit (Sleep 2) (log WARNING (Job_retrying (name job) (int a + 1) (retry_count job)) t)
        else t)"
      have att: "attempts w job (a # as) s = attempts w job as (nxt s0)"
        "attempts w job (a # as) s' = attempts w job as (nxt s0')"
        using run run' rr Inr False by (simp_all add: nxt_def)
      have e1: "effects (nxt s0) = effects s @ ?A @ backoff job a"
        "effects (nxt s0') = effects s' @ ?A @ backoff job a"
        using e e' by (simp_all add: nxt_def backoff_def emit_def log_def)
      have f1: "os_environ (nxt s0) = os_environ (nxt s0')"
        using f by (simp add: nxt_def emit_def log_def)
      from Cons.IH [OF f1] obtain es where
        "effects (snd (attempts w job as (nxt s0))) = effects (nxt s0) @ es"
        "effects (snd (attempts w job as (nxt s0'))) = effects (nxt s0') @ es"
        by blast
      with att e1 show ?thesis
        by (intro exI [of _ "?A @ backoff job a @ es"]) simp
    qed
  qed
qed

lemma execute_job_verdict: "fst (execute_job w job s) = verdict w job"
  unfolding verdict_def execute_job_result
  using attempts_fst_indep [of w job "py_range (retry_count job + 1)"
      "log INFO (Executing_job (name job)) s" "log INFO (Executing_job (name job)) (blank [])"]
  by simp

lemma execute_job_job_effects:
  "effects (snd (execute_job w job s)) = effects s @ job_effects w job (os_environ s)"
proof -
  let ?s0 = "log INFO (Executing_job (name job)) s"
  let ?b0 = "log INFO (Executing_job (name job)) (blank (os_environ s))"
  have "os_environ ?s0 = os_environ ?b0" by (simp add: log_def blank_def)
  from attempts_effects_indep [OF this, of w job "py_range (retry_count job + 1)"]
  obtain es where
    "effects (snd (attempts w job (py_range (retry_count job + 1)) ?s0)) = effects ?s0 @ es"
    "effects (snd (attempts w job (py_range (retry_count job + 1)) ?b0)) = effects ?b0 @ es"
    by blast
  then show ?thesis
    by (simp add: job_effects_def execute_job_effects log_def blank_def)
qed

section \<open>Dictionaries: a new key is appended\<close>

lemma update_fresh: "k \<notin> fst ` set d \<Longrightarrow> AList.update k v d = d @ [(k, v)]"
  by (induction d) auto

lemma record_fresh:
  "distinct (map name js) \<Longrightarrow> name ` set js \<inter> fst ` set d = {} \<Longrightarrow>
   foldl (\<lambda>d j. AList.update (name j) b d) d js = d @ map (\<lambda>j. (name j, b)) js"
proof (induction js arbitrary: d)
  case Nil
  then show ?case by simp
next
  case (Cons j js)
  from Cons.prems have fresh: "name j \<notin> fst ` set d" by auto
  have d1: "AList.update (name j) b d = d @ [(name j, b)]"
    using update_fresh [OF fresh] .
  from Cons.prems have "distinct (map name js)"
    and "name ` set js \<inter> fst ` set (d @ [(name j, b)]) = {}" by auto
  from Cons.IH [OF this] d1 show ?case by simp
qed

lemma job_names:
  "name validate_job = ''Environment Validation''"
  "name build_job = ''Build Application''"
  "name (deploy_job config) = ''Deploy to '' @ title (environment_value (environment config))"
  by (simp_all add: validate_job_def build_job_def deploy_job_def mk_job_def Let_def)

lemma planned_jobs_distinct: "distinct (map name (planned_jobs config stages))"
  by (auto simp: planned_jobs_def job_names)

section \<open>The loop over the jobs\<close>

lemma run_jobs_Cons_ok:
  assumes "verdict (w i) job = Inr True"
  shows "\<exists>s1. run_jobs w tot i (job # rest) succ s =
                run_jobs w tot (Suc i) rest (Suc succ) s1 \<and>
           effects s1 = effects s @ job_effects (w i) job (os_environ s) \<and>
           os_environ s1 = os_environ s \<and>
           job_results s1 = AList.update (name job) True (job_results s)"
proof -
  let ?s0 = "log INFO (Job_header i tot (name job)) s"
  obtain r s1 where ex: "execute_job (w i) job ?s0 = (r, s1)"
    by (cases "execute_job (w i) job ?s0")
  from ex execute_job_verdict [of "w i" job ?s0] assms have r: "r = Inr True" by simp
  from ex execute_job_job_effects [of "w i" job ?s0]
  have e: "effects s1 = effects s @ job_effects (w i) job (os_environ s)"
    by (simp add: log_def)
  from ex execute_job_os_environ [of "w i" job ?s0]
  have f: "os_environ s1 = os_environ s" by (simp add: log_def)
  from ex r execute_job_job_results [of "w i" job ?s0]
  have j: "job_results s1 = AList.update (name job) True (job_results s)"
    by (simp add: log_def)
  have "run_jobs w tot i (job # rest) succ s = run_jobs w tot (Suc i) rest (Suc succ) s1"
    using ex r by simp
  with e f j show ?thesis by blast
qed

lemma run_jobs_Cons_fail:
  assumes "verdict (w i) job = Inr False"
  shows "\<exists>s1. run_jobs w tot i (job # rest) succ s = (Inr succ, s1) \<and>
           effects s1 = effects s @ job_effects (w i) job (os_environ s) \<and>
           os_environ s1 = os_environ s \<and>
           job_results s1 = AList.update (name job) False (job_results s)"
proof -
  let ?s0 = "log INFO (Job_header i tot (name job)) s"
  obtain r s1 where ex: "execute_job (w i) job ?s0 = (r, s1)"
    by (cases "execute_job (w i) job ?s0")
  from ex execute_job_verdict [of "w i" job ?s0] assms have r: "r = Inr False" by simp
  from ex execute_job_job_effects [of "w i" job ?s0]
  have e: "effects s1 = effects s @ job_effects (w i) job (os_environ s)"
    by (simp add: log_def)
  from ex execute_job_os_environ [of "w i" job ?s0]
  have f: "os_environ s1 = os_environ s" by (simp add: log_def)
  from ex r execute_job_job_results [of "w i" job ?s0]
  have j: "job_results s1 = AList.update (name job) False (job_results s)"
    by (simp add: log_def)
  let ?s2 = "log ERROR (Pipeline_failed_at_job (name job)) s1"
  have "run_jobs w tot i (job # rest) succ s = (Inr succ, ?s2)"
    using ex r by simp
  moreover have "effects ?s2 = effects s @ job_effects (w i) job (os_environ s)"
    "os_environ ?s2 = os_environ s"
    "job_results ?s2 = AList.update (name job) False (job_results s)"
    using e f j by (simp_all add: log_def)
  ultimately show ?thesis by blast
qed

lemma run_jobs_append_ok:
  assumes "\<forall>(k, j)\<in>set (List.enumerate i pre). verdict (w k) j = Inr True"
  shows "\<exists>s1. run_jobs w tot i (pre @ rest) succ s =
                run_jobs w tot (i + length pre) rest (succ + length pre) s1 \<and>
           effects s1 = effects s @
             concat (map (\<lambda>(k, j). job_effects (w k) j (os_environ s)) (List.enumerate i pre)) \<and>
           os_environ s1 = os_environ s \<and>
           job_results s1 = foldl (\<lambda>d j. AList.update (name j) True d) (job_results s) pre"
  using assms
proof (induction pre arbitrary: i succ s)
  case Nil
  show ?case by (rule exI [of _ s]) simp
next
  case (Cons job pre)
  from Cons.prems have "verdict (w i) job = Inr True" by simp
  with run_jobs_Cons_ok [of w i job tot "pre @ rest" succ s]
  obtain s1 where s1:
    "run_jobs w tot i (job # pre @ rest) succ s =
       run_jobs w tot (Suc i) (pre @ rest) (Suc succ) s1"
    "effects s1 = effects s @ job_effects (w i) job (os_environ s)"
    "os_environ s1 = os_environ s"
    "job_results s1 = AList.update (name job) True (job_results s)"
    by blast
  from Cons.prems have "\<forall>(k, j)\<in>set (List.enumerate (Suc i) pre). verdict (w k) j = Inr True"
    by simp
  from Cons.IH [OF this, of "Suc succ" s1]
  obtain s2 where s2:
    "run_jobs w tot (Suc i) (pre @ rest) (Suc succ) s1 =
       run_jobs w tot (Suc i + length pre) rest (Suc succ + length pre) s2"
    "effects s2 = effects s1 @
       concat (map (\<lambda>(k, j). job_effects (w k) j (os_environ s1)) (List.enumerate (Suc i) pre))"
    "os_environ s2 = os_environ s1"
    "job_results s2 = foldl (\<lambda>d j. AList.update (name j) True d) (job_results s1) pre"
    by blast
  have "run_jobs w tot i ((job # pre) @ rest) succ s =
      run_jobs w tot (i + length (job # pre)) rest (succ + length (job # pre)) s2"
    using s1(1) s2(1) by (simp only: append_Cons length_Cons add_Suc add_Suc_right)
  moreover have "effects s2 = effects s @
      concat (map (\<lambda>(k, j). job_effects (w k) j (os_environ s)) (List.enumerate i (job # pre)))"
    using s1(2,3) s2(2) by simp
  moreover have "os_environ s2 = os_environ s" using s1(3) s2(3) by simp
  moreover have "job_results s2 =
      foldl (\<lambda>d j. AList.update (name j) True d) (job_results s) (job # pre)"
    using s1(4) s2(4) by simp
  ultimately show ?case by blast
qed

lemma run_jobs_shape:
  "fst (run_jobs w tot i jobs succ s) = Inr n \<Longrightarrow>
   \<exists>m\<le>length jobs. n = succ + m \<and>
     job_results (snd (run_jobs w tot i jobs succ s)) =
       (if m < length jobs then AList.update (name (jobs ! m)) False else id)
         (foldl (\<lambda>d j. AList.update (name j) True d) (job_results s) (take m jobs))"
proof (induction jobs arbitrary: i succ s)
  case Nil
  then show ?case by simp
next
  case (Cons job rest)
  show ?case
  proof (cases "verdict (w i) job")
    case (Inl e)
    let ?s0 = "log INFO (Job_header i tot (name job)) s"
    obtain r s1 where ex: "execute_job (w i) job ?s0 = (r, s1)"
      by (cases "execute_job (w i) job ?s0")
    from ex Inl execute_job_verdict [of "w i" job ?s0] have "r = Inl e" by simp
    with ex have "fst (run_jobs w tot i (job # rest) succ s) = Inl e"
      by simp
    with Cons.prems show ?thesis by simp
  next
    case (Inr ok)
    show ?thesis
    proof (cases ok)
      case True
      with Inr have "verdict (w i) job = Inr True" by simp
      with run_jobs_Cons_ok [of w i job tot rest succ s]
      obtain s1 where s1:
        "run_jobs w tot i (job # rest) succ s = run_jobs w tot (Suc i) rest (Suc succ) s1"
        "job_results s1 = AList.update (name job) True (job_results s)"
        by blast
      from Cons.prems s1(1) have "fst (run_jobs w tot (Suc i) rest (Suc succ) s1) = Inr n"
        by (simp only:)
      from Cons.IH [OF this] obtain m where m: "m \<le> length rest" "n = Suc succ + m"
        "job_results (snd (run_jobs w tot (Suc i) rest (Suc succ) s1)) =
           (if m < length rest then AList.update (name (rest ! m)) False else id)
             (foldl (\<lambda>d j. AList.update (name j) True d) (job_results s1) (take m rest))"
        by blast
      from m s1 show ?thesis
        by (intro exI [of _ "Suc m"]) (simp del: run_jobs.simps)
    next
      case False
      with Inr have "verdict (w i) job = Inr False" by simp
      with run_jobs_Cons_fail [of w i job tot rest succ s]
      obtain s1 where s1:
        "run_jobs w tot i (job # rest) succ s = (Inr succ, s1)"
        "job_results s1 = AList.update (name job) False (job_results s)"
        by blast
      from Cons.prems s1(1) have "n = succ" by (simp only: fst_conv sum.inject)
      with s1 show ?thesis
        by (intro exI [of _ 0]) (simp del: run_jobs.simps)
    qed
  qed
qed

lemma run_pipeline_unfold:
  assumes "run_jobs w (length (planned_jobs config (requested_stages stages_arg))) 1
             (planned_jobs config (requested_stages stages_arg)) 0
             (log INFO Pipeline_banner s) = (Inr n, s1)"
  shows "fst (run_pipeline w config stages_arg s) =
           Inr (n = length (planned_jobs config (requested_stages stages_arg)))"
    and "job_results (snd (run_pipeline w config stages_arg s)) = job_results s1"
    and "effects (snd (run_pipeline w config stages_arg s)) = effects s1"
    and "os_environ (snd (run_pipeline w config stages_arg s)) = os_environ s1"
  using assms by (simp_all add: run_pipeline_def Let_def log_def)

lemma nth_not_in_take: "distinct xs \<Longrightarrow> m < length xs \<Longrightarrow> xs ! m \<notin> set (take m xs)"
proof -
  assume d: "distinct xs" and m: "m < length xs"
  from m have "xs = take m xs @ xs ! m # drop (Suc m) xs" by (rule id_take_nth_drop)
  with d have "distinct (take m xs @ xs ! m # drop (Suc m) xs)" by simp
  then show ?thesis by simp
qed

section \<open>The pipeline stops at the first failed job\<close>

lemma run_pipeline_first_failure:
  assumes "job_results s = []"
    and "planned_jobs config (requested_stages stages_arg) = pre @ job # post"
    and "\<forall>(k, j)\<in>set (List.enumerate 1 pre). verdict (w k) j = Inr True"
    and "verdict (w (Suc (length pre))) job = Inr False"
  shows "fst (run_pipeline w config stages_arg s) = Inr False \<and>
         length (job_results (snd (run_pipeline w config stages_arg s))) = Suc (length pre) \<and>
         job_results (snd (run_pipeline w config stages_arg s)) =
           map (\<lambda>j. (name j, True)) pre @ [(name job, False)] \<and>
         effects (snd (run_pipeline w config stages_arg s)) =
           effects s @
           concat (map (\<lambda>(k, j). job_effects (w k) j (os_environ s))
                     (List.enumerate 1 (pre @ [job])))"
proof -
  let ?jobs = "planned_jobs config (requested_stages stages_arg)"
  let ?s0 = "log INFO Pipeline_banner s"
  from run_jobs_append_ok [OF assms(3), of "length ?jobs" "job # post" 0 ?s0]
  obtain s1 where s1:
    "run_jobs w (length ?jobs) 1 (pre @ job # post) 0 ?s0 =
       run_jobs w (length ?jobs) (1 + length pre) (job # post) (0 + length pre) s1"
    "effects s1 = effects ?s0 @
       concat (map (\<lambda>(k, j). job_effects (w k) j (os_environ ?s0)) (List.enumerate 1 pre))"
    "os_environ s1 = os_environ ?s0"
    "job_results s1 = foldl (\<lambda>d j. AList.update (name j) True d) (job_results ?s0) pre"
    by blast
  from assms(4) have "verdict (w (1 + length pre)) job = Inr False" by simp
  with run_jobs_Cons_fail [of w "1 + length pre" job "length ?jobs" post "0 + length pre" s1]
  obtain s2 where s2:
    "run_jobs w (length ?jobs) (1 + length pre) (job # post) (0 + length pre) s1 =
       (Inr (0 + length pre), s2)"
    "effects s2 = effects s1 @ job_effects (w (1 + length pre)) job (os_environ s1)"
    "job_results s2 = AList.update (name job) False (job_results s1)"
    by blast
  have run: "run_jobs w (length ?jobs) 1 ?jobs 0 ?s0 = (Inr (length pre), s2)"
    using s1(1) s2(1) by (simp only: assms(2) add_0)
  from planned_jobs_distinct [of config "requested_stages stages_arg"]
  have d: "distinct (map name pre)" "name job \<notin> name ` set pre"
    by (simp_all add: assms(2))
  have j1: "job_results s1 = map (\<lambda>j. (name j, True)) pre"
    using s1(4) record_fresh [OF d(1), of "[]" True] by (simp add: log_def assms(1))
  have j2: "job_results s2 = map (\<lambda>j. (name j, True)) pre @ [(name job, False)]"
    using s2(3) j1 d(2) update_fresh [of "name job" "map (\<lambda>j. (name j, True)) pre" False]
    by (simp add: image_image)
  have e2: "effects s2 = effects s @
      concat (map (\<lambda>(k, j). job_effects (w k) j (os_environ s))
                (List.enumerate 1 (pre @ [job])))"
    using s1(2,3) s2(2) by (simp add: log_def enumerate_append_eq)
  have "fst (run_pipeline w config stages_arg s) = Inr (length pre = length ?jobs)"
    using run_pipeline_unfold(1) [OF run] .
  then have "fst (run_pipeline w config stages_arg s) = Inr False"
    by (simp add: assms(2))
  with run_pipeline_unfold(2,3) [OF run] j2 e2 show ?thesis by simp
qed

text \<open>
  C2. Let the planned jobs be \<open>pre @ job # post\<close>, where the jobs of \<open>pre\<close> succeed and
  \<open>job\<close>, numbered \<open>length pre + 1\<close> by \<open>enumerate(jobs, 1)\<close>, fails. Then \<open>run_pipeline\<close>
  returns false, the effects of the run are those of the jobs up to \<open>job\<close> and of no job
  of \<open>post\<close>, and \<open>job_results\<close> holds one entry for each job up to \<open>job\<close>, the failed
  one included: its length is the number of the failed job counted from 1, one more than
  its index \<open>length pre\<close> in the list. It is smaller than the number of planned jobs
  exactly when a job is planned after the failed one.
\<close>

theorem run_pipeline_halts_at_first_failure:
  assumes "job_results s = []"
    and "planned_jobs config (requested_stages stages_arg) = pre @ job # post"
    and "\<forall>(k, j)\<in>set (List.enumerate 1 pre). verdict (w k) j = Inr True"
    and "verdict (w (Suc (length pre))) job = Inr False"
  shows "fst (run_pipeline w config stages_arg s) = Inr False \<and>
         length (job_results (snd (run_pipeline w config stages_arg s))) = Suc (length pre) \<and>
         job_results (snd (run_pipeline w config stages_arg s)) =
           map (\<lambda>j. (name j, True)) pre @ [(name job, False)] \<and>
         effects (snd (run_pipeline w config stages_arg s)) =
           effects s @
           concat (map (\<lambda>(k, j). job_effects (w k) j (os_environ s))
                     (List.enumerate 1 (pre @ [job]))) \<and>
         (length (job_results (snd (run_pipeline w config stages_arg s))) <
            length (planned_jobs config (requested_stages stages_arg))) = (post \<noteq> [])"
proof -
  note r = run_pipeline_first_failure [OF assms]
  from r have l: "length (job_results (snd (run_pipeline w config stages_arg s))) =
      Suc (length pre)"
    by blast
  have "length (planned_jobs config (requested_stages stages_arg)) =
      Suc (length pre) + length post"
    by (simp add: assms(2))
  with l have "(length (job_results (snd (run_pipeline w config stages_arg s))) <
      length (planned_jobs config (requested_stages stages_arg))) = (post \<noteq> [])"
    by simp
  with r show ?thesis by blast
qed

section \<open>The verdict of the pipeline\<close>

text \<open>
  C5. Starting from the empty \<open>job_results\<close> of a new orchestrator, the boolean that
  \<open>run_pipeline\<close> returns is true exactly when \<open>job_results\<close> has as many entries as
  jobs were planned and every entry is true.
\<close>

theorem run_pipeline_verdict:
  assumes "job_results s = []"
    and "fst (run_pipeline w config stages_arg s) = Inr b"
  shows "b \<longleftrightarrow>
     length (job_results (snd (run_pipeline w config stages_arg s))) =
       length (planned_jobs config (requested_stages stages_arg)) \<and>
     (\<forall>r\<in>set (dict_values (job_results (snd (run_pipeline w config stages_arg s)))). r)"
proof -
  let ?jobs = "planned_jobs config (requested_stages stages_arg)"
  let ?s0 = "log INFO Pipeline_banner s"
  obtain r s1 where run: "run_jobs w (length ?jobs) 1 ?jobs 0 ?s0 = (r, s1)"
    by (cases "run_jobs w (length ?jobs) 1 ?jobs 0 ?s0")
  from assms(2) run obtain n where n: "r = Inr n"
    by (cases r) (simp_all add: run_pipeline_def Let_def)
  from run n have run': "run_jobs w (length ?jobs) 1 ?jobs 0 ?s0 = (Inr n, s1)" by simp
  from run_jobs_shape [of w "length ?jobs" 1 ?jobs 0 ?s0 n] run'
  obtain m where m: "m \<le> length ?jobs" "n = m"
    "job_results s1 =
       (if m < length ?jobs then AList.update (name (?jobs ! m)) False else id)
         (foldl (\<lambda>d j. AList.update (name j) True d) (job_results ?s0) (take m ?jobs))"
    by auto
  have dj: "distinct (map name ?jobs)" by (rule planned_jobs_distinct)
  then have dt: "distinct (map name (take m ?jobs))"
    by (simp add: take_map [symmetric])
  have oks: "foldl (\<lambda>d j. AList.update (name j) True d) (job_results ?s0) (take m ?jobs) =
      map (\<lambda>j. (name j, True)) (take m ?jobs)"
    using record_fresh [OF dt, of "[]" True] by (simp add: log_def assms(1))
  from run_pipeline_unfold(1) [OF run'] assms(2) m(2)
  have b: "b \<longleftrightarrow> m = length ?jobs" by simp
  show ?thesis
  proof (cases "m < length ?jobs")
    case True
    from nth_not_in_take [OF dj, of m] True
    have "name (?jobs ! m) \<notin> set (take m (map name ?jobs))" by simp
    then have fresh: "name (?jobs ! m) \<notin> fst ` set (map (\<lambda>j. (name j, True)) (take m ?jobs))"
      by (simp add: take_map image_image)
    from m(3) True oks update_fresh [OF fresh, of False]
    have "job_results s1 =
        map (\<lambda>j. (name j, True)) (take m ?jobs) @ [(name (?jobs ! m), False)]"
      by simp
    with run_pipeline_unfold(2) [OF run'] True b show ?thesis
      by (simp add: dict_values_def)
  next
    case False
    with m(1) have eq: "m = length ?jobs" by simp
    from m(3) oks eq have "job_results s1 = map (\<lambda>j. (name j, True)) ?jobs" by simp
    with run_pipeline_unfold(2) [OF run'] eq b show ?thesis
      by (simp add: dict_values_def)
  qed
qed

section \<open>Jobs that succeed at once, jobs that always fail\<close>

lemma job_succeeds_first:
  assumes "0 \<le> retry_count job" and "attempt_succeeds (w 0) (commands job)"
  shows "verdict w job = Inr True"
    and "job_effects w job env = map (spawn_effect job env) (commands job)"
proof -
  have h: "1 \<le> (1::nat) \<and> int 1 \<le> retry_count job + 1 \<and>
      (\<forall>a<1 - 1. attempt_fails (w a) (commands job)) \<and>
      attempt_succeeds (w (1 - 1)) (commands job)"
    using assms by simp
  from execute_job_retry_loop [OF assms(1), of w "blank []" 1] h
  show "verdict w job = Inr True" by (simp add: verdict_def)
  from execute_job_retry_loop [OF assms(1), of w "blank env" 1] h
  show "job_effects w job env = map (spawn_effect job env) (commands job)"
    by (simp add: job_effects_def blank_def)
qed

lemma job_fails_always:
  assumes "0 \<le> retry_count job"
    and "\<forall>a<nat (retry_count job) + 1. attempt_fails (w a) (commands job)"
  shows "verdict w job = Inr False"
    and "job_effects w job env =
           concat (map (\<lambda>a. attempt_effects job env (w a) @ backoff job a)
                     [0..<nat (retry_count job) + 1])"
proof -
  from execute_job_retry_loop [OF assms(1), of w "blank []" 1] assms(2)
  show "verdict w job = Inr False" by (simp add: verdict_def)
  from execute_job_retry_loop [OF assms(1), of w "blank env" 1] assms(2)
  show "job_effects w job env =
           concat (map (\<lambda>a. attempt_effects job env (w a) @ backoff job a)
                     [0..<nat (retry_count job) + 1])"
    by (simp add: job_effects_def blank_def)
qed

lemma planned_job_facts:
  "0 \<le> retry_count validate_job" "0 \<le> retry_count build_job"
  "0 \<le> retry_count (deploy_job config)"
  "nat (retry_count validate_job) + 1 = 3" "nat (retry_count build_job) + 1 = 3"
  "commands validate_job = [''python nits_rdl_deployment.py --help'']"
  "commands build_job =
     [''rm -rf node_modules/.vite-temp'', ''npm ci --include=dev'', ''npm run build'']"
  "length (commands (deploy_job config)) = 1"
  "stage validate_job = VALIDATE" "stage build_job = BUILD" "stage (deploy_job config) = DEPLOY"
  by (simp_all add: validate_job_def build_job_def deploy_job_def mk_job_def Let_def)

lemma all_succeed_planned:
  "verdict (all_succeed k) validate_job = Inr True"
  "verdict (all_succeed k) build_job = Inr True"
  "verdict (all_succeed k) (deploy_job config) = Inr True"
  "job_effects (all_succeed k) validate_job env =
     map (spawn_effect validate_job env) (commands validate_job)"
  "job_effects (all_succeed k) build_job env =
     map (spawn_effect build_job env) (commands build_job)"
  "job_effects (all_succeed k) (deploy_job config) env =
     map (spawn_effect (deploy_job config) env) (commands (deploy_job config))"
proof -
  have s: "attempt_succeeds (all_succeed k 0) (commands validate_job)"
    "attempt_succeeds (all_succeed k 0) (commands build_job)"
    "attempt_succeeds (all_succeed k 0) (commands (deploy_job config))"
    by (simp_all add: attempt_succeeds_iff all_succeed_def always_exits_def)
  note f = planned_job_facts(1) planned_job_facts(2) planned_job_facts(3) [of config]
  show "verdict (all_succeed k) validate_job = Inr True"
    "verdict (all_succeed k) build_job = Inr True"
    "verdict (all_succeed k) (deploy_job config) = Inr True"
    "job_effects (all_succeed k) validate_job env =
       map (spawn_effect validate_job env) (commands validate_job)"
    "job_effects (all_succeed k) build_job env =
       map (spawn_effect build_job env) (commands build_job)"
    "job_effects (all_succeed k) (deploy_job config) env =
       map (spawn_effect (deploy_job config) env) (commands (deploy_job config))"
    using f s job_succeeds_first(1) [of validate_job "all_succeed k"]
      job_succeeds_first(1) [of build_job "all_succeed k"]
      job_succeeds_first(1) [of "deploy_job config" "all_succeed k"]
      job_succeeds_first(2) [of validate_job "all_succeed k" env]
      job_succeeds_first(2) [of build_job "all_succeed k" env]
      job_succeeds_first(2) [of "deploy_job config" "all_succeed k" env]
    by simp_all
qed

section \<open>A pipeline whose jobs all succeed\<close>

lemma run_pipeline_all_ok:
  assumes "job_results s = []"
    and "\<forall>(k, j)\<in>set (List.enumerate 1 (planned_jobs config (requested_stages stages_arg))).
           verdict (w k) j = Inr True"
  shows "fst (run_pipeline w config stages_arg s) = Inr True"
    and "job_results (snd (run_pipeline w config stages_arg s)) =
           map (\<lambda>j. (name j, True)) (planned_jobs config (requested_stages stages_arg))"
    and "effects (snd (run_pipeline w config stages_arg s)) =
           effects s @
           concat (map (\<lambda>(k, j). job_effects (w k) j (os_environ s))
                     (List.enumerate 1 (planned_jobs config (requested_stages stages_arg))))"
proof -
  let ?jobs = "planned_jobs config (requested_stages stages_arg)"
  let ?s0 = "log INFO Pipeline_banner s"
  from run_jobs_append_ok [OF assms(2), of "length ?jobs" "[]" 0 ?s0]
  obtain s1 where s1:
    "run_jobs w (length ?jobs) 1 (?jobs @ []) 0 ?s0 =
       run_jobs w (length ?jobs) (1 + length ?jobs) [] (0 + length ?jobs) s1"
    "effects s1 = effects ?s0 @
       concat (map (\<lambda>(k, j). job_effects (w k) j (os_environ ?s0)) (List.enumerate 1 ?jobs))"
    "job_results s1 = foldl (\<lambda>d j. AList.update (name j) True d) (job_results ?s0) ?jobs"
    by blast
  from s1(1) have run: "run_jobs w (length ?jobs) 1 ?jobs 0 ?s0 = (Inr (length ?jobs), s1)"
    by simp
  have "foldl (\<lambda>d j. AList.update (name j) True d) [] ?jobs =
      [] @ map (\<lambda>j. (name j, True)) ?jobs"
    by (rule record_fresh) (simp_all add: planned_jobs_distinct)
  then have j1: "job_results s1 = map (\<lambda>j. (name j, True)) ?jobs"
    using s1(3) by (simp add: log_def assms(1))
  show "fst (run_pipeline w config stages_arg s) = Inr True"
    using run_pipeline_unfold(1) [OF run] by simp
  show "job_results (snd (run_pipeline w config stages_arg s)) =
      map (\<lambda>j. (name j, True)) ?jobs"
    using run_pipeline_unfold(2) [OF run] j1 by simp
  show "effects (snd (run_pipeline w config stages_arg s)) =
      effects s @
      concat (map (\<lambda>(k, j). job_effects (w k) j (os_environ s)) (List.enumerate 1 ?jobs))"
    using run_pipeline_unfold(3) [OF run] s1(2) by (simp add: log_def)
qed

lemma example_plan:
  "planned_jobs example_config (requested_stages None) =
     [validate_job] @ build_job # [deploy_job example_config]"
  by (simp add: planned_jobs_def requested_stages_def example_config_def)

lemma fails_at_job_2:
  "verdict (fails_at_job 2 1) validate_job = Inr True"
  "verdict (fails_at_job 2 2) build_job = Inr False"
  "job_effects (fails_at_job 2 1) validate_job env =
     map (spawn_effect validate_job env) (commands validate_job)"
  "job_effects (fails_at_job 2 2) build_job env =
     concat (map (\<lambda>a. attempt_effects build_job env (fails_at_job 2 2 a) @ backoff build_job a)
               [0..<nat (retry_count build_job) + 1])"
proof -
  have s: "attempt_succeeds (fails_at_job 2 1 0) (commands validate_job)"
    by (simp add: attempt_succeeds_iff fails_at_job_def always_exits_def)
  have f: "\<forall>a<nat (retry_count build_job) + 1.
      attempt_fails (fails_at_job 2 2 a) (commands build_job)"
    by (simp add: attempt_fails_def fails_at_job_def always_exits_def planned_job_facts)
  show "verdict (fails_at_job 2 1) validate_job = Inr True"
    using s planned_job_facts(1) job_succeeds_first(1) [of validate_job "fails_at_job 2 1"]
    by simp
  show "job_effects (fails_at_job 2 1) validate_job env =
     map (spawn_effect validate_job env) (commands validate_job)"
    using s planned_job_facts(1) job_succeeds_first(2) [of validate_job "fails_at_job 2 1" env]
    by simp
  show "verdict (fails_at_job 2 2) build_job = Inr False"
    using f planned_job_facts(2) job_fails_always(1) [of build_job "fails_at_job 2 2"]
    by simp
  show "job_effects (fails_at_job 2 2) build_job env =
     concat (map (\<lambda>a. attempt_effects build_job env (fails_at_job 2 2 a) @ backoff build_job a)
               [0..<nat (retry_count build_job) + 1])"
    using f planned_job_facts(2) job_fails_always(2) [of build_job "fails_at_job 2 2" env]
    by simp
qed

theorem run_pipeline_halts_at_first_failure_witness:
  "job_results (blank example_environ) = [] \<and>
   planned_jobs example_config (requested_stages None) =
     [validate_job] @ build_job # [deploy_job example_config] \<and>
   verdict (fails_at_job 2 1) validate_job = Inr True \<and>
   verdict (fails_at_job 2 (Suc (length [validate_job]))) build_job = Inr False \<and>
   fst (run_pipeline (fails_at_job 2) example_config None (blank example_environ)) = Inr False \<and>
   length (job_results (snd (run_pipeline (fails_at_job 2) example_config None
             (blank example_environ)))) = 2 \<and>
   length (planned_jobs example_config (requested_stages None)) = 3 \<and>
   job_results (snd (run_pipeline (fails_at_job 2) example_config None
             (blank example_environ))) =
     [(''Environment Validation'', True), (''Build Application'', False)] \<and>
   effects (snd (run_pipeline (fails_at_job 2) example_config None (blank example_environ))) =
     [Spawn ''python nits_rdl_deployment.py --help'' example_environ 900,
      Spawn ''rm -rf node_modules/.vite-temp'' [(''PATH'', ''/bin''), (''NODE_ENV'', ''production'')] 900,
      Sleep 2,
      Spawn ''rm -rf node_modules/.vite-temp'' [(''PATH'', ''/bin''), (''NODE_ENV'', ''production'')] 900,
      Sleep 2,
      Spawn ''rm -rf node_modules/.vite-temp'' [(''PATH'', ''/bin''), (''NODE_ENV'', ''production'')] 900]"
proof -
  have h1: "job_results (blank example_environ) = []" by (simp add: blank_def)
  note h2 = example_plan
  have h3: "\<forall>(k, j)\<in>set (List.enumerate 1 [validate_job]).
      verdict (fails_at_job 2 k) j = Inr True"
    using fails_at_job_2(1) by simp
  have two: "Suc (length [validate_job]) = 2" by simp
  have h4: "verdict (fails_at_job 2 (Suc (length [validate_job]))) build_job = Inr False"
    unfolding two by (rule fails_at_job_2(2))
  have c2: "map (\<lambda>j. (name j, True)) [validate_job] @ [(name build_job, False)] =
      [(''Environment Validation'', True), (''Build Application'', False)]"
    by (simp add: job_names)
  have c3a: "map (spawn_effect validate_job example_environ) (commands validate_job) @
      concat (map (\<lambda>a. attempt_effects build_job example_environ (fails_at_job 2 2 a) @
                        backoff build_job a)
                [0..<nat (retry_count build_job) + 1]) =
     [Spawn ''python nits_rdl_deployment.py --help'' example_environ 900,
      Spawn ''rm -rf node_modules/.vite-temp'' [(''PATH'', ''/bin''), (''NODE_ENV'', ''production'')] 900,
      Sleep 2,
      Spawn ''rm -rf node_modules/.vite-temp'' [(''PATH'', ''/bin''), (''NODE_ENV'', ''production'')] 900,
      Sleep 2,
      Spawn ''rm -rf node_modules/.vite-temp'' [(''PATH'', ''/bin''), (''NODE_ENV'', ''production'')] 900]"
    by code_simp
  have c3': "effects (blank example_environ) @
      concat (map (\<lambda>(k, j). job_effects (fails_at_job 2 k) j (os_environ (blank example_environ)))
                (List.enumerate 1 ([validate_job] @ [build_job]))) =
      job_effects (fails_at_job 2 1) validate_job example_environ @
      job_effects (fails_at_job 2 2) build_job example_environ"
    by (simp add: blank_def numeral_2_eq_2)
  have c3: "effects (blank example_environ) @
      concat (map (\<lambda>(k, j). job_effects (fails_at_job 2 k) j (os_environ (blank example_environ)))
                (List.enumerate 1 ([validate_job] @ [build_job]))) =
      map (spawn_effect validate_job example_environ) (commands validate_job) @
      concat (map (\<lambda>a. attempt_effects build_job example_environ (fails_at_job 2 2 a) @
                        backoff build_job a)
                [0..<nat (retry_count build_job) + 1])"
    by (simp only: c3' fails_at_job_2(3,4))
  have c4: "length (planned_jobs example_config (requested_stages None)) = 3"
    by (simp add: h2)
  note inst = run_pipeline_halts_at_first_failure [OF h1 h2 h3 h4]
  from inst have a:
    "fst (run_pipeline (fails_at_job 2) example_config None (blank example_environ)) = Inr False"
    "length (job_results (snd (run_pipeline (fails_at_job 2) example_config None
             (blank example_environ)))) = Suc (length [validate_job])"
    "job_results (snd (run_pipeline (fails_at_job 2) example_config None
             (blank example_environ))) =
       map (\<lambda>j. (name j, True)) [validate_job] @ [(name build_job, False)]"
    "effects (snd (run_pipeline (fails_at_job 2) example_config None (blank example_environ))) =
       effects (blank example_environ) @
       concat (map (\<lambda>(k, j). job_effects (fails_at_job 2 k) j (os_environ (blank example_environ)))
                (List.enumerate 1 ([validate_job] @ [build_job])))"
    by blast+
  show ?thesis
    using h1 h2 fails_at_job_2(1) h4 c4 a(1) a(2) [unfolded two] a(3) [unfolded c2]
      a(4) [unfolded c3 c3a]
    by blast
qed

theorem run_pipeline_verdict_witness:
  "job_results (blank example_environ) = [] \<and>
   fst (run_pipeline all_succeed example_config None (blank example_environ)) = Inr True \<and>
   length (job_results (snd (run_pipeline all_succeed example_config None
             (blank example_environ)))) =
     length (planned_jobs example_config (requested_stages None)) \<and>
   list_all (\<lambda>r. r) (dict_values (job_results (snd (run_pipeline all_succeed example_config None
             (blank example_environ))))) \<and>
   fst (run_pipeline (fails_at_job 2) example_config None (blank example_environ)) = Inr False \<and>
   \<not> (length (job_results (snd (run_pipeline (fails_at_job 2) example_config None
             (blank example_environ)))) =
        length (planned_jobs example_config (requested_stages None)) \<and>
      (\<forall>r\<in>set (dict_values (job_results (snd (run_pipeline (fails_at_job 2) example_config None
             (blank example_environ))))). r))"
proof -
  have h1: "job_results (blank example_environ) = []" by (simp add: blank_def)
  have hall: "\<forall>(k, j)\<in>set (List.enumerate 1
        (planned_jobs example_config (requested_stages None))).
      verdict (all_succeed k) j = Inr True"
    by (simp add: example_plan all_succeed_planned)
  have t: "fst (run_pipeline all_succeed example_config None (blank example_environ)) = Inr True"
    by (rule run_pipeline_all_ok(1) [OF h1 hall])
  have h3: "\<forall>(k, j)\<in>set (List.enumerate 1 [validate_job]).
      verdict (fails_at_job 2 k) j = Inr True"
    using fails_at_job_2(1) by simp
  have two: "Suc (length [validate_job]) = 2" by simp
  have h4: "verdict (fails_at_job 2 (Suc (length [validate_job]))) build_job = Inr False"
    unfolding two by (rule fails_at_job_2(2))
  from run_pipeline_first_failure [OF h1 example_plan h3 h4]
  have f: "fst (run_pipeline (fails_at_job 2) example_config None (blank example_environ)) =
      Inr False"
    by blast
  from run_pipeline_verdict [OF h1 t]
  have AB: "length (job_results (snd (run_pipeline all_succeed example_config None
             (blank example_environ)))) =
        length (planned_jobs example_config (requested_stages None)) \<and>
      (\<forall>r\<in>set (dict_values (job_results (snd (run_pipeline all_succeed example_config None
             (blank example_environ))))). r)"
    by blast
  from AB have A: "length (job_results (snd (run_pipeline all_succeed example_config None
             (blank example_environ)))) =
        length (planned_jobs example_config (requested_stages None))"
    by blast
  have B: "list_all (\<lambda>r. r) (dict_values (job_results (snd (run_pipeline all_succeed
             example_config None (blank example_environ)))))"
    unfolding list_all_iff using AB by blast
  from run_pipeline_verdict [OF h1 f]
  have C: "\<not> (length (job_results (snd (run_pipeline (fails_at_job 2) example_config None
             (blank example_environ)))) =
        length (planned_jobs example_config (requested_stages None)) \<and>
      (\<forall>r\<in>set (dict_values (job_results (snd (run_pipeline (fails_at_job 2) example_config None
             (blank example_environ))))). r))"
    by blast
  from h1 t f A B C show ?thesis by blast
qed


section \<open>The jobs of a run without automatic deployment\<close>

lemma manual_plan:
  "\<not> auto_deploy config \<Longrightarrow>
     planned_jobs config (requested_stages (Some [VALIDATE, BUILD, DEPLOY])) =
       [validate_job, build_job]"
  by (simp add: planned_jobs_def requested_stages_def)

text \<open>
  C10. \<open>run_pipeline\<close> appends the Deploy job only under
  \<open>PipelineStage.DEPLOY in stages and self.config.auto_deploy\<close>. With \<open>auto_deploy\<close>
  false no planned job has the stage \<open>DEPLOY\<close>, and the planned jobs are those of the
  stage list with \<open>DEPLOY\<close> removed. A run that asks for all three stages and whose
  commands all return 0 then returns \<open>True\<close>, having recorded and executed the Validate
  and the Build job only: the subprocesses started are the commands of these two jobs.
  \<open>main\<close> itself asks for the \<open>DEPLOY\<close> stage only under \<open>--auto-deploy\<close>.
\<close>

theorem deploy_job_needs_auto_deploy:
  "(\<not> auto_deploy config \<longrightarrow>
     (\<forall>j\<in>set (planned_jobs config stages). stage j \<noteq> DEPLOY) \<and>
     planned_jobs config stages = planned_jobs config (removeAll DEPLOY stages) \<and>
     (job_results s = [] \<longrightarrow>
        fst (run_pipeline all_succeed config (Some [VALIDATE, BUILD, DEPLOY]) s) = Inr True \<and>
        job_results (snd (run_pipeline all_succeed config (Some [VALIDATE, BUILD, DEPLOY]) s)) =
          [(''Environment Validation'', True), (''Build Application'', True)] \<and>
        effects (snd (run_pipeline all_succeed config (Some [VALIDATE, BUILD, DEPLOY]) s)) =
          effects s @ map (spawn_effect validate_job (os_environ s)) (commands validate_job) @
          map (spawn_effect build_job (os_environ s)) (commands build_job))) \<and>
   main_stages args =
     (if arg_auto_deploy args then [VALIDATE, BUILD, DEPLOY] else [VALIDATE, BUILD])"
proof -
  have m: "main_stages args =
     (if arg_auto_deploy args then [VALIDATE, BUILD, DEPLOY] else [VALIDATE, BUILD])"
    by (simp add: main_stages_def)
  have p: "(\<forall>j\<in>set (planned_jobs config stages). stage j \<noteq> DEPLOY) \<and>
     planned_jobs config stages = planned_jobs config (removeAll DEPLOY stages)"
    if na: "\<not> auto_deploy config"
    using na by (auto simp: planned_jobs_def planned_job_facts)
  have r: "fst (run_pipeline all_succeed config (Some [VALIDATE, BUILD, DEPLOY]) s) = Inr True \<and>
        job_results (snd (run_pipeline all_succeed config (Some [VALIDATE, BUILD, DEPLOY]) s)) =
          [(''Environment Validation'', True), (''Build Application'', True)] \<and>
        effects (snd (run_pipeline all_succeed config (Some [VALIDATE, BUILD, DEPLOY]) s)) =
          effects s @ map (spawn_effect validate_job (os_environ s)) (commands validate_job) @
          map (spawn_effect build_job (os_environ s)) (commands build_job)"
    if na: "\<not> auto_deploy config" and e: "job_results s = []"
  proof -
    note plan = manual_plan [OF na]
    have hall: "\<forall>(k, j)\<in>set (List.enumerate 1
          (planned_jobs config (requested_stages (Some [VALIDATE, BUILD, DEPLOY])))).
        verdict (all_succeed k) j = Inr True"
      by (simp add: plan all_succeed_planned)
    note ok = run_pipeline_all_ok [OF e hall]
    have c2: "map (\<lambda>j. (name j, True))
          (planned_jobs config (requested_stages (Some [VALIDATE, BUILD, DEPLOY]))) =
        [(''Environment Validation'', True), (''Build Application'', True)]"
      by (simp add: plan job_names)
    have c3: "concat (map (\<lambda>(k, j). job_effects (all_succeed k) j (os_environ s))
          (List.enumerate 1
            (planned_jobs config (requested_stages (Some [VALIDATE, BUILD, DEPLOY]))))) =
        map (spawn_effect validate_job (os_environ s)) (commands validate_job) @
        map (spawn_effect build_job (os_environ s)) (commands build_job)"
      by (simp add: plan all_succeed_planned)
    from ok(1) ok(2) [unfolded c2] ok(3) [unfolded c3] show ?thesis by blast
  qed
  from m p r show ?thesis by blast
qed

theorem deploy_job_needs_auto_deploy_witness:
  "\<not> auto_deploy manual_config \<and>
   map stage (planned_jobs manual_config [VALIDATE, BUILD, DEPLOY]) = [VALIDATE, BUILD] \<and>
   planned_jobs manual_config [VALIDATE, BUILD, DEPLOY] =
     planned_jobs manual_config [VALIDATE, BUILD] \<and>
   job_results (blank example_environ) = [] \<and>
   fst (run_pipeline all_succeed manual_config (Some [VALIDATE, BUILD, DEPLOY])
          (blank example_environ)) = Inr True \<and>
   job_results (snd (run_pipeline all_succeed manual_config (Some [VALIDATE, BUILD, DEPLOY])
          (blank example_environ))) =
     [(''Environment Validation'', True), (''Build Application'', True)] \<and>
   effects (snd (run_pipeline all_succeed manual_config (Some [VALIDATE, BUILD, DEPLOY])
          (blank example_environ))) =
     [Spawn ''python nits_rdl_deployment.py --help'' example_environ 900,
      Spawn ''rm -rf node_modules/.vite-temp''
        [(''PATH'', ''/bin''), (''NODE_ENV'', ''production'')] 900,
      Spawn ''npm ci --include=dev'' [(''PATH'', ''/bin''), (''NODE_ENV'', ''production'')] 900,
      Spawn ''npm run build'' [(''PATH'', ''/bin''), (''NODE_ENV'', ''production'')] 900] \<and>
   main_stages workflow_args = [VALIDATE, BUILD]"
proof -
  have na: "\<not> auto_deploy manual_config"
    by (simp add: manual_config_def example_config_def)
  have h1: "job_results (blank example_environ) = []" by (simp add: blank_def)
  have st: "map stage (planned_jobs manual_config [VALIDATE, BUILD, DEPLOY]) = [VALIDATE, BUILD]"
    using na by (simp add: planned_jobs_def planned_job_facts)
  have rm: "removeAll DEPLOY [VALIDATE, BUILD, DEPLOY] = [VALIDATE, BUILD]" by simp
  have ar: "\<not> arg_auto_deploy workflow_args" by (simp add: workflow_args_def)
  have c: "effects (blank example_environ) @
      map (spawn_effect validate_job (os_environ (blank example_environ)))
        (commands validate_job) @
      map (spawn_effect build_job (os_environ (blank example_environ))) (commands build_job) =
     [Spawn ''python nits_rdl_deployment.py --help'' example_environ 900,
      Spawn ''rm -rf node_modules/.vite-temp''
        [(''PATH'', ''/bin''), (''NODE_ENV'', ''production'')] 900,
      Spawn ''npm ci --include=dev'' [(''PATH'', ''/bin''), (''NODE_ENV'', ''production'')] 900,
      Spawn ''npm run build'' [(''PATH'', ''/bin''), (''NODE_ENV'', ''production'')] 900]"
    by code_simp
  note inst = deploy_job_needs_auto_deploy
    [of manual_config "[VALIDATE, BUILD, DEPLOY]" "blank example_environ" workflow_args]
  from inst na h1 have a:
    "planned_jobs manual_config [VALIDATE, BUILD, DEPLOY] =
       planned_jobs manual_config (removeAll DEPLOY [VALIDATE, BUILD, DEPLOY])"
    "fst (run_pipeline all_succeed manual_config (Some [VALIDATE, BUILD, DEPLOY])
          (blank example_environ)) = Inr True"
    "job_results (snd (run_pipeline all_succeed manual_config (Some [VALIDATE, BUILD, DEPLOY])
          (blank example_environ))) =
       [(''Environment Validation'', True), (''Build Application'', True)]"
    "effects (snd (run_pipeline all_succeed manual_config (Some [VALIDATE, BUILD, DEPLOY])
          (blank example_environ))) =
       effects (blank example_environ) @
       map (spawn_effect validate_job (os_environ (blank example_environ)))
         (commands validate_job) @
       map (spawn_effect build_job (os_environ (blank example_environ))) (commands build_job)"
    by blast+
  from inst have "main_stages workflow_args =
      (if arg_auto_deploy workflow_args then [VALIDATE, BUILD, DEPLOY] else [VALIDATE, BUILD])"
    by blast
  with ar have a5: "main_stages workflow_args = [VALIDATE, BUILD]" by simp
  from na st h1 a(1) [unfolded rm] a(2) a(3) a(4) [unfolded c] a5 show ?thesis by blast
qed

section \<open>Division of integers: the nearest double\<close>

lemma bit_length_mono: "a \<le> b \<Longrightarrow> bit_length a \<le> bit_length b"
proof (induction a arbitrary: b rule: bit_length.induct)
  case (1 n)
  show ?case
  proof (cases "n = 0")
    case True
    then show ?thesis by (simp add: bit_length.simps [of 0])
  next
    case False
    with "1.prems" have b: "b \<noteq> 0" by simp
    from "1.prems" have "n div 2 \<le> b div 2" by (rule div_le_mono)
    from "1.IH" [OF False this] have "bit_length (n div 2) \<le> bit_length (b div 2)" .
    then show ?thesis by (simp add: bit_length.simps [of n] bit_length.simps [of b] False b)
  qed
qed

lemma exponent_le_0: "a \<le> b \<Longrightarrow> exponent a b \<le> 0"
  using bit_length_mono [of a b] by (simp add: exponent_def Let_def)

lemma round_half_even_error: "\<bar>of_int (round_half_even x) - x\<bar> \<le> 1 / 2"
proof -
  define f where "f = \<lfloor>x\<rfloor>"
  define r where "r = x - of_int f"
  have r: "0 \<le> r" "r < 1"
    using floor_correct [of x] by (simp_all add: r_def f_def)
  have rhe: "round_half_even x =
      (if r < 1 / 2 then f else if 1 / 2 < r then f + 1 else if even f then f else f + 1)"
    by (simp add: round_half_even_def Let_def f_def r_def)
  consider (lo) "r < 1 / 2" | (hi) "1 / 2 < r" | (tie) "r = 1 / 2" by linarith
  then show ?thesis
  proof cases
    case lo
    then have "round_half_even x = f" by (simp add: rhe)
    then have "of_int (round_half_even x) - x = - r" by (simp add: r_def)
    with r lo show ?thesis by linarith
  next
    case hi
    then have "round_half_even x = f + 1" by (simp add: rhe)
    then have "of_int (round_half_even x) - x = 1 - r" by (simp add: r_def)
    with r hi show ?thesis by linarith
  next
    case tie
    then have "round_half_even x = f \<or> round_half_even x = f + 1" by (simp add: rhe)
    then have "of_int (round_half_even x) - x = - r \<or> of_int (round_half_even x) - x = 1 - r"
      by (auto simp: r_def)
    with tie show ?thesis by auto
  qed
qed

lemma nearest_double_error:
  assumes "0 < a" and "a \<le> b"
  shows "\<bar>nearest_double a b - of_int a / of_int b\<bar> \<le> 1 / 2 ^ 53"
proof -
  define k where "k = max (exponent (nat \<bar>a\<bar>) (nat \<bar>b\<bar>)) (- 1022) - 52"
  define p where "p = power_int (2::rat) k"
  define q where "q = (of_int a / of_int b :: rat)"
  have "exponent (nat \<bar>a\<bar>) (nat \<bar>b\<bar>) \<le> 0"
    using assms by (intro exponent_le_0) simp
  then have k: "k \<le> - 52" by (simp add: k_def)
  have p0: "0 < p" by (simp add: p_def)
  have "p \<le> power_int 2 (- 52)"
    unfolding p_def using k by (intro power_int_increasing) simp_all
  then have p52: "p \<le> 1 / 2 ^ 52" by (simp add: power_int_minus_divide)
  have nd: "nearest_double a b = of_int (round_half_even (q / p)) * p"
    using assms(1) by (simp add: nearest_double_def Let_def k_def p_def q_def)
  have "of_int (round_half_even (q / p)) * p - q = (of_int (round_half_even (q / p)) - q / p) * p"
    using p0 by (simp add: field_simps)
  then have "\<bar>nearest_double a b - q\<bar> = \<bar>of_int (round_half_even (q / p)) - q / p\<bar> * p"
    using p0 by (simp add: nd abs_mult)
  also have "\<dots> \<le> 1 / 2 * p"
    using round_half_even_error [of "q / p"] p0 by (intro mult_right_mono) simp_all
  also have "\<dots> \<le> 1 / 2 * (1 / 2 ^ 52)"
    using p52 by simp
  also have "\<dots> = 1 / 2 ^ 53" by simp
  finally show ?thesis by (simp add: q_def)
qed

lemma truediv_unit_interval:
  assumes "0 \<le> a" and "a \<le> b" and "0 < b"
  shows "truediv a b = Inr (nearest_double a b)"
proof (cases "a = 0")
  case True
  then show ?thesis using assms(3) by (simp add: truediv_def nearest_double_def)
next
  case False
  with assms(1) have a: "0 < a" by simp
  have "of_int a / of_int b \<le> (1::rat)" using assms by simp
  moreover have "0 \<le> (of_int a / of_int b :: rat)" using assms by simp
  moreover note nearest_double_error [OF a assms(2)]
  moreover have "(1::rat) / 2 ^ 53 \<le> 1" by simp
  ultimately have "\<bar>nearest_double a b\<bar> \<le> 2" by linarith
  moreover have "(2::rat) < 2 ^ 1024"
    using power_strict_increasing [of 1 1024 "2::rat"] by simp
  ultimately have "\<not> 2 ^ 1024 \<le> \<bar>nearest_double a b\<bar>" by linarith
  then show ?thesis using assms(3) by (simp add: truediv_def Let_def)
qed

section \<open>The status report\<close>

lemma successes_le: "successes s \<le> length (job_results s)"
  using length_filter_le [of "\<lambda>r. r" "dict_values (job_results s)"]
  by (simp add: successes_def dict_values_def)

lemma report_value:
  "generate_pipeline_status_report config s =
     Inr \<lparr>pipeline_version = ''1.0.0'', system_version = ''2.0 (AI-Enhanced)'',
          report_environment = environment_value (environment config),
          report_job_results = job_results s,
          success_rate =
            nearest_double (int (successes s)) (max (int (length (job_results s))) 1),
          total_jobs = length (job_results s)\<rparr>"
proof -
  have "truediv (int (successes s)) (max (int (length (job_results s))) 1) =
      Inr (nearest_double (int (successes s)) (max (int (length (job_results s))) 1))"
    using successes_le [of s] by (intro truediv_unit_interval) simp_all
  then show ?thesis by (simp add: generate_pipeline_status_report_def)
qed

lemma report_returned:
  "\<exists>rep. generate_pipeline_status_report config s = Inr rep"
  by (simp add: report_value)

text \<open>
  C4. \<open>generate_pipeline_status_report\<close> always returns a report: the divisor
  \<open>max(len(self.job_results), 1)\<close> is never 0 and the quotient is at most 1, so neither
  \<open>ZeroDivisionError\<close> nor \<open>OverflowError\<close> is raised. Its \<open>total_jobs\<close> is the number
  of recorded jobs. When this is positive, the \<open>success_rate\<close> is the number of recorded
  successes divided by it as Python divides two integers: the double nearest to the
  quotient, which differs from the quotient by at most \<open>2 ^ -53\<close>. When no job is
  recorded, the \<open>success_rate\<close> is 0.
\<close>

theorem success_rate_value:
  "\<exists>rep. generate_pipeline_status_report config s = Inr rep \<and>
     total_jobs rep = length (job_results s) \<and>
     (0 < total_jobs rep \<longrightarrow>
        success_rate rep = nearest_double (int (successes s)) (int (total_jobs rep)) \<and>
        \<bar>success_rate rep - of_nat (successes s) / of_nat (total_jobs rep)\<bar> \<le> 1 / 2 ^ 53) \<and>
     (total_jobs rep = 0 \<longrightarrow> success_rate rep = 0)"
proof -
  let ?n = "length (job_results s)"
  let ?m = "successes s"
  have z: "nearest_double (int ?m) (max (int ?n) 1) = 0" if "?n = 0"
    using that successes_le [of s] by (simp add: nearest_double_def)
  have p: "max (int ?n) 1 = int ?n" if "0 < ?n"
  proof -
    from that have "1 \<le> int ?n" by linarith
    then show ?thesis by (simp only: max_absorb1)
  qed
  have e: "\<bar>nearest_double (int ?m) (int ?n) - of_nat ?m / of_nat ?n\<bar> \<le> 1 / 2 ^ 53"
    if "0 < ?n"
  proof (cases "?m = 0")
    case True
    then show ?thesis by (simp add: nearest_double_def)
  next
    case False
    then have "0 < int ?m" by simp
    moreover have "int ?m \<le> int ?n" using successes_le [of s] by simp
    ultimately show ?thesis
      using nearest_double_error [of "int ?m" "int ?n"] by simp
  qed
  show ?thesis
    using z p e by (auto simp: report_value)
qed

theorem success_rate_value_witness:
  "0 < length (job_results three_results) \<and>
   (\<exists>rep. generate_pipeline_status_report example_config three_results = Inr rep \<and>
      total_jobs rep = 3 \<and>
      success_rate rep = 6004799503160661 / 9007199254740992 \<and>
      \<bar>success_rate rep - 2 / 3\<bar> \<le> 1 / 2 ^ 53) \<and>
   0 < length (job_results two_results) \<and>
   (\<exists>rep. generate_pipeline_status_report example_config two_results = Inr rep \<and>
      total_jobs rep = 2 \<and> success_rate rep = 1 / 2) \<and>
   length (job_results (blank [])) = 0 \<and>
   (\<exists>rep. generate_pipeline_status_report example_config (blank []) = Inr rep \<and>
      total_jobs rep = 0 \<and> success_rate rep = 0)"
proof -
  have l3: "length (job_results three_results) = 3" by (simp add: three_results_def)
  have s3: "successes three_results = 2"
    by (simp add: three_results_def successes_def dict_values_def)
  have n3: "nearest_double 2 3 = 6004799503160661 / 9007199254740992" by code_simp
  have l2: "length (job_results two_results) = 2" by (simp add: two_results_def)
  have s2: "successes two_results = 1"
    by (simp add: two_results_def successes_def dict_values_def)
  have n2: "nearest_double 1 2 = 1 / 2" by code_simp
  have l0: "length (job_results (blank [])) = 0" by (simp add: blank_def)
  from success_rate_value [of example_config three_results]
  obtain rep3 where rep3: "generate_pipeline_status_report example_config three_results = Inr rep3 \<and>
      total_jobs rep3 = length (job_results three_results) \<and>
      (0 < total_jobs rep3 \<longrightarrow>
         success_rate rep3 =
           nearest_double (int (successes three_results)) (int (total_jobs rep3)) \<and>
         \<bar>success_rate rep3 - of_nat (successes three_results) / of_nat (total_jobs rep3)\<bar>
           \<le> 1 / 2 ^ 53) \<and>
      (total_jobs rep3 = 0 \<longrightarrow> success_rate rep3 = 0)" ..
  from rep3 have "total_jobs rep3 = length (job_results three_results)" by blast
  with l3 have t3: "total_jobs rep3 = 3" by simp
  then have pos3: "0 < total_jobs rep3" by simp
  from rep3 pos3
  have x3: "success_rate rep3 =
      nearest_double (int (successes three_results)) (int (total_jobs rep3))"
    and y3: "\<bar>success_rate rep3 -
        of_nat (successes three_results) / of_nat (total_jobs rep3)\<bar> \<le> 1 / 2 ^ 53"
    by blast+
  from x3 have r3: "success_rate rep3 = nearest_double 2 3" by (simp add: s3 t3)
  from y3 have e3: "\<bar>success_rate rep3 - 2 / 3\<bar> \<le> 1 / 2 ^ 53" by (simp add: s3 t3)
  from rep3 t3 r3 [unfolded n3] e3
  have "generate_pipeline_status_report example_config three_results = Inr rep3 \<and>
      total_jobs rep3 = 3 \<and>
      success_rate rep3 = 6004799503160661 / 9007199254740992 \<and>
      \<bar>success_rate rep3 - 2 / 3\<bar> \<le> 1 / 2 ^ 53"
    by blast
  then have a3: "\<exists>rep. generate_pipeline_status_report example_config three_results = Inr rep \<and>
      total_jobs rep = 3 \<and>
      success_rate rep = 6004799503160661 / 9007199254740992 \<and>
      \<bar>success_rate rep - 2 / 3\<bar> \<le> 1 / 2 ^ 53" ..
  from success_rate_value [of example_config two_results]
  obtain rep where rep: "generate_pipeline_status_report example_config two_results = Inr rep \<and>
      total_jobs rep = length (job_results two_results) \<and>
      (0 < total_jobs rep \<longrightarrow>
         success_rate rep =
           nearest_double (int (successes two_results)) (int (total_jobs rep)) \<and>
         \<bar>success_rate rep - of_nat (successes two_results) / of_nat (total_jobs rep)\<bar>
           \<le> 1 / 2 ^ 53) \<and>
      (total_jobs rep = 0 \<longrightarrow> success_rate rep = 0)" ..
  from rep have "total_jobs rep = length (job_results two_results)" by blast
  with l2 have t2: "total_jobs rep = 2" by simp
  then have pos2: "0 < total_jobs rep" by simp
  from rep pos2
  have x2: "success_rate rep =
      nearest_double (int (successes two_results)) (int (total_jobs rep))"
    by blast
  then have r2: "success_rate rep = nearest_double 1 2" by (simp add: s2 t2)
  from rep t2 r2 [unfolded n2]
  have "generate_pipeline_status_report example_config two_results = Inr rep \<and>
      total_jobs rep = 2 \<and> success_rate rep = 1 / 2"
    by blast
  then have a: "\<exists>rep. generate_pipeline_status_report example_config two_results = Inr rep \<and>
      total_jobs rep = 2 \<and> success_rate rep = 1 / 2" ..
  from success_rate_value [of example_config "blank []"]
  obtain rep0 where rep0: "generate_pipeline_status_report example_config (blank []) = Inr rep0 \<and>
      total_jobs rep0 = length (job_results (blank [])) \<and>
      (0 < total_jobs rep0 \<longrightarrow>
         success_rate rep0 =
           nearest_double (int (successes (blank []))) (int (total_jobs rep0)) \<and>
         \<bar>success_rate rep0 - of_nat (successes (blank [])) / of_nat (total_jobs rep0)\<bar>
           \<le> 1 / 2 ^ 53) \<and>
      (total_jobs rep0 = 0 \<longrightarrow> success_rate rep0 = 0)" ..
  from rep0 have "total_jobs rep0 = length (job_results (blank []))" by blast
  with l0 have t0: "total_jobs rep0 = 0" by simp
  with rep0 have r0: "success_rate rep0 = 0" by blast
  from rep0 t0 r0
  have "generate_pipeline_status_report example_config (blank []) = Inr rep0 \<and>
      total_jobs rep0 = 0 \<and> success_rate rep0 = 0"
    by blast
  then have b: "\<exists>rep. generate_pipeline_status_report example_config (blank []) = Inr rep \<and>
      total_jobs rep = 0 \<and> success_rate rep = 0" ..
  have p3: "0 < length (job_results three_results)" by (simp add: l3)
  have p2: "0 < length (job_results two_results)" by (simp add: l2)
  from p3 a3 p2 a l0 b show ?thesis by blast
qed

section \<open>Exit codes\<close>

lemma pipeline_main_finish:
  "fst (pipeline_main w ext args s) = finish (requested_operation w ext args s)"
proof -
  let ?config = "make_config args s"
  let ?run = "run_pipeline w ?config (Some (main_stages args)) (init_orchestrator s)"
  obtain r s1 where run: "?run = (r, s1)" by (cases ?run)
  obtain rep where rep: "generate_pipeline_status_report ?config s1 = Inr rep"
    using report_returned by blast
  show ?thesis
    by (simp add: pipeline_main_def requested_operation_def finish_def Let_def run rep
        split: sum.splits)
qed

lemma deployment_main_finish:
  "fst (deployment_main w build_only) = finish (requested_deployment w build_only)"
proof -
  let ?op = "if build_only then all_of w 0 (take 3 step_names) [] else deploy w 3"
  obtain r tr where op: "?op = (r, tr)" by (cases ?op)
  have "fst (deployment_main w build_only) = finish r"
    unfolding deployment_main_def op
    by (cases r; simp add: finish_def split: exn.splits)
  moreover have "requested_deployment w build_only = r"
    unfolding requested_deployment_def op by simp
  ultimately show ?thesis by simp
qed

text \<open>
  C8. In \<open>main\<close> of \<open>rdl_deployment_pipeline.py\<close> (modes \<open>--create-workflow\<close>,
  \<open>--validate-only\<close>, \<open>--deploy-artifacts\<close> and the full pipeline) and in \<open>main\<close> of
  \<open>nits_rdl_deployment.py\<close> (\<open>--build-only\<close> and the full deployment) the exit code is
  0 when the requested operation returns \<open>True\<close>, 1 when it returns \<open>False\<close>, 0 when it
  raises \<open>KeyboardInterrupt\<close> and 1 when it raises any other exception.
\<close>

theorem exit_codes:
  "(requested_operation w ext args s = Inr True \<longrightarrow> fst (pipeline_main w ext args s) = 0) \<and>
   (requested_operation w ext args s = Inr False \<longrightarrow> fst (pipeline_main w ext args s) = 1) \<and>
   (requested_operation w ext args s = Inl KeyboardInterrupt \<longrightarrow>
      fst (pipeline_main w ext args s) = 0) \<and>
   (requested_operation w ext args s = Inl TimeoutExpired \<or>
    requested_operation w ext args s = Inl OtherException \<longrightarrow>
      fst (pipeline_main w ext args s) = 1) \<and>
   (requested_deployment dw build_only = Inr True \<longrightarrow>
      fst (deployment_main dw build_only) = 0) \<and>
   (requested_deployment dw build_only = Inr False \<longrightarrow>
      fst (deployment_main dw build_only) = 1) \<and>
   (requested_deployment dw build_only = Inl KeyboardInterrupt \<longrightarrow>
      fst (deployment_main dw build_only) = 0) \<and>
   (requested_deployment dw build_only = Inl TimeoutExpired \<or>
    requested_deployment dw build_only = Inl OtherException \<longrightarrow>
      fst (deployment_main dw build_only) = 1)"
  unfolding pipeline_main_finish deployment_main_finish
  by (auto simp: finish_def exit_code_def)

theorem exit_codes_witness:
  "requested_operation all_succeed (externals_with (Inr True)) workflow_args (blank []) =
     Inr True \<and>
   fst (pipeline_main all_succeed (externals_with (Inr True)) workflow_args (blank [])) = 0 \<and>
   requested_operation all_succeed (externals_with (Inr False)) workflow_args (blank []) =
     Inr False \<and>
   fst (pipeline_main all_succeed (externals_with (Inr False)) workflow_args (blank [])) = 1 \<and>
   requested_operation all_succeed (externals_with (Inl KeyboardInterrupt)) workflow_args
     (blank []) = Inl KeyboardInterrupt \<and>
   fst (pipeline_main all_succeed (externals_with (Inl KeyboardInterrupt)) workflow_args
     (blank [])) = 0 \<and>
   requested_operation all_succeed (externals_with (Inl OtherException)) workflow_args
     (blank []) = Inl OtherException \<and>
   fst (pipeline_main all_succeed (externals_with (Inl OtherException)) workflow_args
     (blank [])) = 1 \<and>
   requested_deployment (steps_all (Inr True)) True = Inr True \<and>
   fst (deployment_main (steps_all (Inr True)) True) = 0 \<and>
   requested_deployment (steps_all (Inr False)) True = Inr False \<and>
   fst (deployment_main (steps_all (Inr False)) True) = 1 \<and>
   requested_deployment (steps_all (Inl KeyboardInterrupt)) True = Inl KeyboardInterrupt \<and>
   fst (deployment_main (steps_all (Inl KeyboardInterrupt)) True) = 0 \<and>
   requested_deployment (steps_all (Inl OtherException)) True = Inl OtherException \<and>
   fst (deployment_main (steps_all (Inl OtherException)) True) = 1"
proof -
  have o: "requested_operation all_succeed (externals_with r) workflow_args (blank []) = r" for r
    by (simp add: requested_operation_def workflow_args_def externals_with_def)
  have d: "requested_deployment (steps_all (Inr True)) True = Inr True"
      "requested_deployment (steps_all (Inr False)) True = Inr False"
      "requested_deployment (steps_all (Inl e)) True = Inl e" for e
    by (simp_all add: requested_deployment_def step_names_def steps_all_def)
  from exit_codes [of all_succeed "externals_with (Inr True)" workflow_args "blank []"
      "steps_all (Inr True)" True] o d
  have a1: "fst (pipeline_main all_succeed (externals_with (Inr True)) workflow_args (blank [])) = 0"
    "fst (deployment_main (steps_all (Inr True)) True) = 0"
    by simp_all
  from exit_codes [of all_succeed "externals_with (Inr False)" workflow_args "blank []"
      "steps_all (Inr False)" True] o d
  have a2: "fst (pipeline_main all_succeed (externals_with (Inr False)) workflow_args (blank [])) = 1"
    "fst (deployment_main (steps_all (Inr False)) True) = 1"
    by simp_all
  from exit_codes [of all_succeed "externals_with (Inl KeyboardInterrupt)" workflow_args
      "blank []" "steps_all (Inl KeyboardInterrupt)" True] o d
  have a3: "fst (pipeline_main all_succeed (externals_with (Inl KeyboardInterrupt)) workflow_args
       (blank [])) = 0"
    "fst (deployment_main (steps_all (Inl KeyboardInterrupt)) True) = 0"
    by simp_all
  from exit_codes [of all_succeed "externals_with (Inl OtherException)" workflow_args
      "blank []" "steps_all (Inl OtherException)" True] o d
  have a4: "fst (pipeline_main all_succeed (externals_with (Inl OtherException)) workflow_args
       (blank [])) = 1"
    "fst (deployment_main (steps_all (Inl OtherException)) True) = 1"
    by simp_all
  from o d a1 a2 a3 a4 show ?thesis by simp
qed

section \<open>The attempts of one deployment step\<close>

text \<open>
  \<open>deploy\<close> of \<open>nits_rdl_deployment.py\<close> has no \<open>retry_count\<close> per step: its bound
  \<open>max_retries\<close> is the number of calls of a step that keeps returning false, with a
  sleep of 2 seconds between two calls, and a step that returns true is called no more.
\<close>

lemma retry_step_always_fails:
  "(\<forall>a. step_func a = Inr False) \<Longrightarrow> 0 \<le> retries \<Longrightarrow> retries < max_retries \<Longrightarrow>
     retry_step step_func step_name max_retries retries tr =
       (Inr False,
        tr @ concat (replicate (nat (max_retries - retries) - 1) [Called step_name, Slept 2]) @
        [Called step_name])"
proof (induction step_func step_name max_retries retries tr rule: retry_step.induct)
  case (1 f n m r tr)
  have f: "f (nat r) = Inr False" using "1.prems"(1) by simp
  show ?case
  proof (cases "r + 1 < m")
    case True
    have IH: "retry_step f n m (r + 1) (tr @ [Called n, Slept 2]) =
        (Inr False,
         (tr @ [Called n, Slept 2]) @
         concat (replicate (nat (m - (r + 1)) - 1) [Called n, Slept 2]) @ [Called n])"
      using "1.IH" [OF "1.prems"(3) f _ True "1.prems"(1) _ True] "1.prems"(2) by simp
    from True "1.prems"(2) obtain j where k1: "nat (m - (r + 1)) = Suc j"
      by (cases "nat (m - (r + 1))") simp_all
    from k1 "1.prems"(2) have k2: "nat (m - r) = Suc (Suc j)" by linarith
    show ?thesis
      by (subst retry_step.simps) (simp add: f True "1.prems"(3) IH k1 k2 del: retry_step.simps)
  next
    case False
    with "1.prems"(3) have k: "nat (m - r) = Suc 0" by linarith
    show ?thesis
      by (subst retry_step.simps) (simp add: f False "1.prems"(3) k del: retry_step.simps)
  qed
qed

lemma retry_step_succeeds_at_once:
  "step_func (nat retries) = Inr True \<Longrightarrow> retries < max_retries \<Longrightarrow>
     retry_step step_func step_name max_retries retries tr = (Inr True, tr @ [Called step_name])"
  by (subst retry_step.simps) (simp del: retry_step.simps)

lemma deploy_first_step_always_fails:
  assumes "\<forall>a. w 0 a = Inr False" and "0 < max_retries"
  shows "deploy w max_retries =
     (Inr False,
      concat (replicate (nat max_retries - 1) [Called ''Environment Validation'', Slept 2]) @
      [Called ''Environment Validation''])"
  using retry_step_always_fails [of "w 0" 0 max_retries "''Environment Validation''" "[]"] assms
  by (simp add: deploy_def step_names_def del: retry_step.simps)

section \<open>A timeout cuts the attempts short\<close>

text \<open>
  The count of \<open>r + 1\<close> attempts does not hold for every job whose commands always
  fail, when a command that exceeds the timeout counts as a failed command: the Build
  job has \<open>retry_count = 2\<close>, and when its commands always time out it is reported failed
  after one attempt of one subprocess, with no sleep and no second or third attempt.
\<close>

theorem execute_job_attempt_count_counterexample:
  "retry_count build_job = 2 \<and>
   attempt_times_out (always_times_out 0) (commands build_job) \<and>
   attempt_times_out (always_times_out 1) (commands build_job) \<and>
   attempt_times_out (always_times_out 2) (commands build_job) \<and>
   fst (execute_job always_times_out build_job (blank [])) = Inr False \<and>
   effects (snd (execute_job always_times_out build_job (blank []))) =
     [Spawn ''rm -rf node_modules/.vite-temp'' [(''NODE_ENV'', ''production'')] 900]"
proof -
  have "retry_count build_job = 2 \<and>
      attempt_times_out (always_times_out 0) (commands build_job) \<and>
      attempt_times_out (always_times_out 1) (commands build_job) \<and>
      attempt_times_out (always_times_out 2) (commands build_job)"
    by (simp add: attempt_times_out_def always_times_out_def build_job_def mk_job_def)
  moreover have "fst (execute_job always_times_out build_job (blank [])) = Inr False"
    by code_simp
  moreover have "effects (snd (execute_job always_times_out build_job (blank []))) =
     [Spawn ''rm -rf node_modules/.vite-temp'' [(''NODE_ENV'', ''production'')] 900]"
    by code_simp
  ultimately show ?thesis by blast
qed

section \<open>When the last planned job fails\<close>

text \<open>
  The number of recorded results is not always smaller than the number of planned
  jobs, and it is not the list index of the failed job: without \<open>--auto-deploy\<close>, \<open>main\<close>
  asks for the stages \<open>VALIDATE\<close> and \<open>BUILD\<close>, and when the Build job fails the run
  records two results for two planned jobs, the failed job being at index 1 of the list.
\<close>

theorem run_pipeline_last_job_fails_counterexample:
  "planned_jobs manual_config (requested_stages (Some [VALIDATE, BUILD])) =
     [validate_job, build_job] \<and>
   [validate_job, build_job] ! 1 = build_job \<and>
   verdict (fails_at_job 2 1) validate_job = Inr True \<and>
   verdict (fails_at_job 2 2) build_job = Inr False \<and>
   fst (run_pipeline (fails_at_job 2) manual_config (Some [VALIDATE, BUILD])
          (blank example_environ)) = Inr False \<and>
   job_results (snd (run_pipeline (fails_at_job 2) manual_config (Some [VALIDATE, BUILD])
          (blank example_environ))) =
     [(''Environment Validation'', True), (''Build Application'', False)] \<and>
   length (job_results (snd (run_pipeline (fails_at_job 2) manual_config
          (Some [VALIDATE, BUILD]) (blank example_environ)))) = 2 \<and>
   length (planned_jobs manual_config (requested_stages (Some [VALIDATE, BUILD]))) = 2"
proof -
  have h1: "job_results (blank example_environ) = []" by (simp add: blank_def)
  have pl: "planned_jobs manual_config (requested_stages (Some [VALIDATE, BUILD])) =
      [validate_job, build_job]"
    by (simp add: planned_jobs_def requested_stages_def)
  have h2: "planned_jobs manual_config (requested_stages (Some [VALIDATE, BUILD])) =
      [validate_job] @ build_job # []"
    by (simp add: pl)
  have h3: "\<forall>(k, j)\<in>set (List.enumerate 1 [validate_job]).
      verdict (fails_at_job 2 k) j = Inr True"
    using fails_at_job_2(1) by simp
  have two: "Suc (length [validate_job]) = 2" by simp
  have h4: "verdict (fails_at_job 2 (Suc (length [validate_job]))) build_job = Inr False"
    unfolding two by (rule fails_at_job_2(2))
  have c2: "map (\<lambda>j. (name j, True)) [validate_job] @ [(name build_job, False)] =
      [(''Environment Validation'', True), (''Build Application'', False)]"
    by (simp add: job_names)
  from run_pipeline_first_failure [OF h1 h2 h3 h4] have a:
    "fst (run_pipeline (fails_at_job 2) manual_config (Some [VALIDATE, BUILD])
          (blank example_environ)) = Inr False"
    "length (job_results (snd (run_pipeline (fails_at_job 2) manual_config
          (Some [VALIDATE, BUILD]) (blank example_environ)))) = Suc (length [validate_job])"
    "job_results (snd (run_pipeline (fails_at_job 2) manual_config (Some [VALIDATE, BUILD])
          (blank example_environ))) =
       map (\<lambda>j. (name j, True)) [validate_job] @ [(name build_job, False)]"
    by blast+
  have ix: "[validate_job, build_job] ! 1 = build_job" by simp
  have lp: "length (planned_jobs manual_config (requested_stages (Some [VALIDATE, BUILD]))) = 2"
    by (simp add: pl)
  from pl ix fails_at_job_2(1) fails_at_job_2(2) a(1) a(3) [unfolded c2] a(2) [unfolded two] lp
  show ?thesis by blast
qed

end
